theory Spec2Isabelle
  imports Complex_Main
begin

section \<open>Exceptions, console output and tensors\<close>

text \<open>
  The module \<^verbatim>\<open>schnetpack/representation/painn.py\<close> is PyTorch code. A forward pass
  either returns tensors or raises a Python exception, and it may write to the console.
  An exception is modelled by its kind together with its traceback inside
  \<^verbatim>\<open>painn.py\<close>: the line numbers of the statements being executed, outermost
  call first. Tensor entries are modelled as real numbers (rounding, infinities and NaN
  of the floating-point types are outside this model).
\<close>

datatype exc_kind = TypeError | IndexError | RuntimeError | ValueError

type_synonym error = "exc_kind \<times> nat list"

definition raise :: "exc_kind \<Rightarrow> error + 'a" where
  "raise k = Inl (k, [])"

definition ebind :: "error + 'a \<Rightarrow> ('a \<Rightarrow> error + 'b) \<Rightarrow> error + 'b" where
  "ebind m f = (case m of Inl e \<Rightarrow> Inl e | Inr x \<Rightarrow> f x)"

text \<open>\<open>line n r\<close>: the statement on line \<open>n\<close> computes \<open>r\<close>; an exception that
  leaves it gets the line pushed on its traceback.\<close>

definition line :: "nat \<Rightarrow> error + 'a \<Rightarrow> error + 'a" where
  "line n r = (case r of Inl (k, tb) \<Rightarrow> Inl (k, n # tb) | Inr x \<Rightarrow> Inr x)"

text \<open>A computation that may print: it takes the text written to standard output so far
  and returns its result together with the text written after it.\<close>

type_synonym 'a io = "string \<Rightarrow> (error + 'a) \<times> string"

definition ioreturn :: "'a \<Rightarrow> 'a io" where
  "ioreturn x out = (Inr x, out)"

definition iobind :: "'a io \<Rightarrow> ('a \<Rightarrow> 'b io) \<Rightarrow> 'b io" where
  "iobind m f out = (case m out of (Inl e, out') \<Rightarrow> (Inl e, out') | (Inr x, out') \<Rightarrow> f x out')"

definition pure :: "error + 'a \<Rightarrow> 'a io" where
  "pure r out = (r, out)"

definition called_at :: "nat \<Rightarrow> 'a io \<Rightarrow> 'a io" where
  "called_at n m out = (case m out of (r, out') \<Rightarrow> (line n r, out'))"

text \<open>Python's \<^verbatim>\<open>print()\<close> with no argument writes a newline to standard output.\<close>

definition print_newline :: "unit io" where
  "print_newline out = (Inr (), out @ [CHR 0x0A])"

text \<open>A tensor is its shape and its entries, read at an index list as long as the shape.\<close>

datatype tensor = Tensor (shape: "nat list") (entry: "nat list \<Rightarrow> real")

definition map_tensor :: "(real \<Rightarrow> real) \<Rightarrow> tensor \<Rightarrow> tensor" where
  "map_tensor f x = Tensor (shape x) (\<lambda>i. f (entry x i))"

subsection \<open>The PyTorch operations the module calls\<close>

text \<open>A dimension argument \<open>d\<close> of a tensor of rank \<open>r\<close> must lie in \<open>[-r, r)\<close>
  (in \<open>[-1, 0]\<close> for a rank-0 tensor); a negative one counts from the end.\<close>

definition wrap_dim :: "nat \<Rightarrow> int \<Rightarrow> error + nat" where
  "wrap_dim r d =
     (let m = int (max r 1)
      in if - m \<le> d \<and> d < m then Inr (nat (if d < 0 then d + m else d))
         else raise IndexError)"

definition reduce_sum :: "tensor \<Rightarrow> nat \<Rightarrow> bool \<Rightarrow> tensor" where
  "reduce_sum x d keepdim =
     (if shape x = [] then x
      else Tensor (if keepdim then (shape x)[d := 1] else take d (shape x) @ drop (Suc d) (shape x))
             (\<lambda>i. \<Sum>k<shape x ! d. entry x (if keepdim then i[d := k] else take d i @ k # drop d i)))"

definition torch_sum :: "tensor \<Rightarrow> int \<Rightarrow> bool \<Rightarrow> error + tensor" where
  "torch_sum x axis keepdim =
     ebind (wrap_dim (length (shape x)) axis) (\<lambda>d. Inr (reduce_sum x d keepdim))"

definition torch_norm :: "tensor \<Rightarrow> int \<Rightarrow> bool \<Rightarrow> error + tensor" where
  "torch_norm x axis keepdim =
     ebind (torch_sum (map_tensor (\<lambda>v. v\<^sup>2) x) axis keepdim) (\<lambda>s. Inr (map_tensor sqrt s))"

text \<open>\<^verbatim>\<open>nn.Linear(in_features, out_features)\<close>: a weight matrix and a bias; the input's
  last dimension must be \<open>in_features\<close>.\<close>

record Linear =
  in_features :: nat
  out_features :: nat
  weight :: "nat \<Rightarrow> nat \<Rightarrow> real"
  bias :: "nat \<Rightarrow> real"

definition Linear_forward :: "Linear \<Rightarrow> tensor \<Rightarrow> error + tensor" where
  "Linear_forward L x =
     (if shape x = [] \<or> last (shape x) \<noteq> in_features L then raise RuntimeError
      else Inr (Tensor (butlast (shape x) @ [out_features L])
             (\<lambda>i. (\<Sum>k<in_features L. entry x (butlast i @ [k]) * weight L (last i) k)
                    + bias L (last i))))"

definition ReLU :: "tensor \<Rightarrow> tensor" where
  "ReLU x = map_tensor (\<lambda>v. max 0 v) x"

text \<open>\<^verbatim>\<open>nn.Softmax(dim=-1)\<close>.\<close>

definition Softmax :: "tensor \<Rightarrow> tensor" where
  "Softmax x =
     (if shape x = [] then Tensor [] (\<lambda>i. 1)
      else Tensor (shape x)
             (\<lambda>i. exp (entry x i) / (\<Sum>k<last (shape x). exp (entry x (butlast i @ [k])))))"

text \<open>In \<^verbatim>\<open>torch.einsum\<close>, dimensions that carry the same letter must have the same
  size or size 1; a dimension of size 1 is read at position 0.\<close>

definition bdim :: "nat \<Rightarrow> nat \<Rightarrow> nat option" where
  "bdim a b = (if a = b \<or> b = 1 then Some a else if a = 1 then Some b else None)"

definition bix :: "nat \<Rightarrow> nat \<Rightarrow> nat" where
  "bix d k = (if d = 1 then 0 else k)"

definition einsum_bvc_bl_blc :: "tensor \<Rightarrow> tensor \<Rightarrow> error + tensor" where
  "einsum_bvc_bl_blc x w =
     (if length (shape x) \<noteq> 3 \<or> length (shape w) \<noteq> 2 then raise RuntimeError
      else case bdim (shape x ! 0) (shape w ! 0) of
             None \<Rightarrow> raise RuntimeError
           | Some b \<Rightarrow>
               Inr (Tensor [b, shape w ! 1, shape x ! 2]
                 (\<lambda>i. \<Sum>v<shape x ! 1.
                        entry x [bix (shape x ! 0) (i ! 0), v, i ! 2]
                        * entry w [bix (shape w ! 0) (i ! 0), i ! 1])))"

definition einsum_bci_bcj_bcij :: "tensor \<Rightarrow> tensor \<Rightarrow> error + tensor" where
  "einsum_bci_bcj_bcij x y =
     (if length (shape x) \<noteq> 3 \<or> length (shape y) \<noteq> 3 then raise RuntimeError
      else case (bdim (shape x ! 0) (shape y ! 0), bdim (shape x ! 1) (shape y ! 1)) of
             (Some b, Some c) \<Rightarrow>
               Inr (Tensor [b, c, shape x ! 2, shape y ! 2]
                 (\<lambda>i. entry x [bix (shape x ! 0) (i ! 0), bix (shape x ! 1) (i ! 1), i ! 2]
                      * entry y [bix (shape y ! 0) (i ! 0), bix (shape y ! 1) (i ! 1), i ! 3]))
           | _ \<Rightarrow> raise RuntimeError)"

definition einsum_brc_bcij_brij :: "tensor \<Rightarrow> tensor \<Rightarrow> error + tensor" where
  "einsum_brc_bcij_brij w t =
     (if length (shape w) \<noteq> 3 \<or> length (shape t) \<noteq> 4 then raise RuntimeError
      else case (bdim (shape w ! 0) (shape t ! 0), bdim (shape w ! 2) (shape t ! 1)) of
             (Some b, Some c) \<Rightarrow>
               Inr (Tensor [b, shape w ! 1, shape t ! 2, shape t ! 3]
                 (\<lambda>i. \<Sum>k<c.
                        entry w [bix (shape w ! 0) (i ! 0), i ! 1, bix (shape w ! 2) k]
                        * entry t [bix (shape t ! 0) (i ! 0), bix (shape t ! 1) k, i ! 2, i ! 3]))
           | _ \<Rightarrow> raise RuntimeError)"

definition einsum_bfij_bfj_bfi :: "tensor \<Rightarrow> tensor \<Rightarrow> error + tensor" where
  "einsum_bfij_bfj_bfi t v =
     (if length (shape t) \<noteq> 4 \<or> length (shape v) \<noteq> 3 then raise RuntimeError
      else case (bdim (shape t ! 0) (shape v ! 0), bdim (shape t ! 1) (shape v ! 1),
                 bdim (shape t ! 3) (shape v ! 2)) of
             (Some b, Some f, Some j) \<Rightarrow>
               Inr (Tensor [b, f, shape t ! 2]
                 (\<lambda>i. \<Sum>k<j.
                        entry t [bix (shape t ! 0) (i ! 0), bix (shape t ! 1) (i ! 1), i ! 2,
                                 bix (shape t ! 3) k]
                        * entry v [bix (shape v ! 0) (i ! 0), bix (shape v ! 1) (i ! 1),
                                   bix (shape v ! 2) k]))
           | _ \<Rightarrow> raise RuntimeError)"

text \<open>\<^verbatim>\<open>x.view(-1, r, c)\<close> of a contiguous tensor: the entries in row-major order under the
  new shape. The size standing for \<open>-1\<close> must be determined: \<open>r * c\<close> is positive and
  divides the number of entries.\<close>

fun unravel :: "nat list \<Rightarrow> nat \<Rightarrow> nat list" where
  "unravel [] n = []"
| "unravel (d # ds) n = (n div prod_list ds) # unravel ds (n mod prod_list ds)"

definition torch_view :: "tensor \<Rightarrow> nat \<Rightarrow> nat \<Rightarrow> error + tensor" where
  "torch_view x r c =
     (if r * c = 0 \<or> prod_list (shape x) mod (r * c) \<noteq> 0 then raise RuntimeError
      else Inr (Tensor [prod_list (shape x) div (r * c), r, c]
             (\<lambda>i. entry x (unravel (shape x) ((i ! 0 * r + i ! 1) * c + i ! 2)))))"

text \<open>Broadcasting of the elementwise binary operations: the shapes are aligned at their
  last dimensions; two sizes are compatible when they are equal or one of them is 1.\<close>

fun broadcast_rev :: "nat list \<Rightarrow> nat list \<Rightarrow> nat list option" where
  "broadcast_rev [] ys = Some ys"
| "broadcast_rev xs [] = Some xs"
| "broadcast_rev (x # xs) (y # ys) =
     (case bdim x y of
        None \<Rightarrow> None
      | Some d \<Rightarrow> map_option ((#) d) (broadcast_rev xs ys))"

definition broadcast_shapes :: "nat list \<Rightarrow> nat list \<Rightarrow> nat list option" where
  "broadcast_shapes s t = map_option rev (broadcast_rev (rev s) (rev t))"

definition bindex :: "nat list \<Rightarrow> nat list \<Rightarrow> nat list" where
  "bindex s i = map2 bix s (drop (length i - length s) i)"

definition broadcast2 :: "(real \<Rightarrow> real \<Rightarrow> real) \<Rightarrow> tensor \<Rightarrow> tensor \<Rightarrow> error + tensor" where
  "broadcast2 f a b =
     (case broadcast_shapes (shape a) (shape b) of
        None \<Rightarrow> raise RuntimeError
      | Some s \<Rightarrow>
          Inr (Tensor s (\<lambda>i. f (entry a (bindex (shape a) i)) (entry b (bindex (shape b) i)))))"

definition torch_mul :: "tensor \<Rightarrow> tensor \<Rightarrow> error + tensor" where
  "torch_mul = broadcast2 (*)"

definition torch_add :: "tensor \<Rightarrow> tensor \<Rightarrow> error + tensor" where
  "torch_add = broadcast2 (+)"

definition torch_div :: "tensor \<Rightarrow> tensor \<Rightarrow> error + tensor" where
  "torch_div = broadcast2 (/)"

text \<open>\<^verbatim>\<open>x[idx]\<close> with a one-dimensional integer tensor \<open>idx\<close>: the rows of \<open>x\<close> at the
  positions in \<open>idx\<close>. An index \<open>k\<close> is accepted when \<open>-n \<le> k < n\<close> for the \<open>n\<close> rows
  of \<open>x\<close>, and a negative one counts from the end.\<close>

definition index_rows :: "tensor \<Rightarrow> int list \<Rightarrow> error + tensor" where
  "index_rows x idx =
     (case shape x of
        [] \<Rightarrow> raise IndexError
      | n # s \<Rightarrow>
          if list_all (\<lambda>k. - int n \<le> k \<and> k < int n) idx
          then Inr (Tensor (length idx # s)
                 (\<lambda>i. entry x (nat (if idx ! hd i < 0 then idx ! hd i + int n else idx ! hd i) # tl i)))
          else raise IndexError)"

text \<open>\<^verbatim>\<open>torch.split(x, split_size, dim=-1)\<close>: chunks of width \<open>split_size\<close> along the last
  dimension, the last chunk smaller when the size is not a multiple; at least one chunk.\<close>

definition torch_split :: "tensor \<Rightarrow> nat \<Rightarrow> error + tensor list" where
  "torch_split x split_size =
     (if shape x = [] then raise RuntimeError
      else let n = last (shape x) in
        if split_size = 0 \<and> n \<noteq> 0 then raise RuntimeError
        else Inr (map (\<lambda>j. Tensor (butlast (shape x) @ [min split_size (n - j * split_size)])
                          (\<lambda>i. entry x (butlast i @ [last i + j * split_size])))
                   [0..<(if split_size = 0 then 1 else max 1 ((n + split_size - 1) div split_size))]))"

text \<open>Python's tuple unpacking \<^verbatim>\<open>a, b = xs\<close> and \<^verbatim>\<open>a, b, c = xs\<close>.\<close>

fun unpack2 :: "'a list \<Rightarrow> error + ('a \<times> 'a)" where
  "unpack2 [a, b] = Inr (a, b)"
| "unpack2 xs = raise ValueError"

fun unpack3 :: "'a list \<Rightarrow> error + ('a \<times> 'a \<times> 'a)" where
  "unpack3 [a, b, c] = Inr (a, b, c)"
| "unpack3 xs = raise ValueError"

text \<open>\<^verbatim>\<open>x[..., None]\<close>: a new last dimension of size 1.\<close>

definition unsqueeze_last :: "tensor \<Rightarrow> tensor" where
  "unsqueeze_last x = Tensor (shape x @ [1]) (\<lambda>i. entry x (butlast i))"

text \<open>\<^verbatim>\<open>torch.transpose(x, dim0, dim1)\<close> swaps two dimensions. Both dimension arguments
  are required: the call \<^verbatim>\<open>torch.transpose(x)\<close> raises a \<^verbatim>\<open>TypeError\<close>.\<close>

definition torch_transpose :: "tensor \<Rightarrow> int \<Rightarrow> int \<Rightarrow> error + tensor" where
  "torch_transpose x dim0 dim1 =
     ebind (wrap_dim (length (shape x)) dim0) (\<lambda>a.
     ebind (wrap_dim (length (shape x)) dim1) (\<lambda>b.
     Inr (if shape x = [] then x
          else Tensor ((shape x)[a := shape x ! b, b := shape x ! a])
                 (\<lambda>i. entry x (i[a := i ! b, b := i ! a])))))"

definition torch_transpose_missing_dims :: "tensor \<Rightarrow> error + tensor" where
  "torch_transpose_missing_dims x = raise TypeError"

text \<open>\<^verbatim>\<open>torch.cat([a, b], dim=-1)\<close>: the shapes agree except in the last dimension; a
  one-dimensional empty tensor is skipped.\<close>

definition torch_cat :: "tensor \<Rightarrow> tensor \<Rightarrow> error + tensor" where
  "torch_cat a b =
     (if shape a = [] \<or> shape b = [] then raise RuntimeError
      else if shape a = [0] then Inr b
      else if shape b = [0] then Inr a
      else if butlast (shape a) \<noteq> butlast (shape b) then raise RuntimeError
      else Inr (Tensor (butlast (shape a) @ [last (shape a) + last (shape b)])
             (\<lambda>i. if last i < last (shape a) then entry a i
                  else entry b (butlast i @ [last i - last (shape a)]))))"

text \<open>\<^verbatim>\<open>x.unsqueeze(1)\<close> and \<^verbatim>\<open>x.squeeze(1)\<close>.\<close>

definition unsqueeze1 :: "tensor \<Rightarrow> error + tensor" where
  "unsqueeze1 x =
     (if shape x = [] then raise IndexError
      else Inr (Tensor (hd (shape x) # 1 # tl (shape x)) (\<lambda>i. entry x (hd i # tl (tl i)))))"

definition squeeze1 :: "tensor \<Rightarrow> error + tensor" where
  "squeeze1 x =
     (if length (shape x) < 2 then raise IndexError
      else if shape x ! 1 = 1
      then Inr (Tensor (hd (shape x) # tl (tl (shape x))) (\<lambda>i. entry x (hd i # 0 # tl i)))
      else Inr x)"

definition torch_zeros :: "nat list \<Rightarrow> tensor" where
  "torch_zeros s = Tensor s (\<lambda>i. 0)"

text \<open>Python's \<^verbatim>\<open>xs[i]\<close> on a tuple or list, for \<open>i \<ge> 0\<close>.\<close>

definition list_index :: "'a list \<Rightarrow> nat \<Rightarrow> error + 'a" where
  "list_index xs i = (if i < length xs then Inr (xs ! i) else raise IndexError)"

text \<open>\<^verbatim>\<open>nn.Embedding(num_embeddings, embedding_dim)\<close>: a table with one row per code;
  a code outside \<open>[0, num_embeddings)\<close> raises.\<close>

record Embedding =
  num_embeddings :: nat
  embedding_dim :: nat
  table :: "nat \<Rightarrow> nat \<Rightarrow> real"

definition Embedding_forward :: "Embedding \<Rightarrow> int list \<Rightarrow> error + tensor" where
  "Embedding_forward E codes =
     (if list_all (\<lambda>z. 0 \<le> z \<and> z < int (num_embeddings E)) codes
      then Inr (Tensor [length codes, embedding_dim E] (\<lambda>i. table E (nat (codes ! (i ! 0))) (i ! 1)))
      else raise IndexError)"

subsection \<open>The parts of \<^verbatim>\<open>schnetpack.nn\<close> the module calls\<close>

text \<open>Modelled from the spec: \<^verbatim>\<open>snn.Dense\<close> is defined in \<^verbatim>\<open>schnetpack.nn\<close>, which is
  not among the sources. The spec describes its uses as a linear layer (\<open>linear expand to
  3F\<close>, \<open>linear, bias-free mix\<close>) with an optional bias, followed by an optional
  nonlinearity, and a mismatch between the configured width and the input's width as the
  fatal error \<open>InvalidShape\<close>.\<close>

record Dense =
  dense_in :: nat
  dense_out :: nat
  dense_weight :: "nat \<Rightarrow> nat \<Rightarrow> real"
  dense_bias :: "(nat \<Rightarrow> real) option"
  dense_activation :: "(real \<Rightarrow> real) option"

definition Dense_forward :: "Dense \<Rightarrow> tensor \<Rightarrow> error + tensor" where
  "Dense_forward D x =
     (if shape x = [] \<or> last (shape x) \<noteq> dense_in D then raise RuntimeError
      else Inr (Tensor (butlast (shape x) @ [dense_out D])
             (\<lambda>i. (case dense_activation D of None \<Rightarrow> (\<lambda>v. v) | Some f \<Rightarrow> f)
                    ((\<Sum>k<dense_in D. entry x (butlast i @ [k]) * dense_weight D (last i) k)
                     + (case dense_bias D of None \<Rightarrow> 0 | Some b \<Rightarrow> b (last i))))))"

text \<open>Modelled from the spec: \<^verbatim>\<open>snn.scatter_add\<close> is defined in \<^verbatim>\<open>schnetpack.nn\<close>, which
  is not among the sources. The spec: \<open>grouped-sum(values, index, output_size)\<close>, an
  aggregation of the values into buckets by index; the result has length \<open>output_size\<close>,
  a bucket that no index names is zero, and an index outside \<open>[0, output_size)\<close> is the
  fatal error \<open>IndexOutOfRange\<close>. The values are summed in the order of the edges; there
  is one index for each row of values.\<close>

definition scatter_add :: "tensor \<Rightarrow> int list \<Rightarrow> nat \<Rightarrow> error + tensor" where
  "scatter_add x idx dim_size =
     (if shape x = [] \<or> hd (shape x) \<noteq> length idx then raise RuntimeError
      else if list_ex (\<lambda>k. k < 0 \<or> int dim_size \<le> k) idx then raise IndexError
      else Inr (Tensor (dim_size # tl (shape x))
             (\<lambda>i. sum_list (map (\<lambda>e. entry x (e # tl i))
                              (filter (\<lambda>e. idx ! e = int (hd i)) [0..<length idx])))))"

text \<open>Modelled from the spec: \<^verbatim>\<open>snn.replicate_module\<close> is defined in \<^verbatim>\<open>schnetpack.nn\<close>,
  which is not among the sources. The spec: one shared block instance (the factory invoked
  once) or \<open>N\<close> independent instances (the factory invoked \<open>N\<close> times). The factory
  is given the number of the invocation, to draw its initial weights from.\<close>

definition replicate_module :: "(nat \<Rightarrow> 'm) \<Rightarrow> nat \<Rightarrow> bool \<Rightarrow> 'm list" where
  "replicate_module module_factory n share_params =
     (if share_params then replicate n (module_factory 0) else map module_factory [0..<n])"

text \<open>The random initial values of the weights are a parameter of each constructor:
  the initial weight matrix and bias of its \<open>k\<close>-th linear layer, in construction order.\<close>

type_synonym init = "nat \<Rightarrow> (nat \<Rightarrow> nat \<Rightarrow> real) \<times> (nat \<Rightarrow> real)"

definition Linear_init :: "nat \<Rightarrow> nat \<Rightarrow> (nat \<Rightarrow> nat \<Rightarrow> real) \<times> (nat \<Rightarrow> real) \<Rightarrow> Linear" where
  "Linear_init n m wb = \<lparr> in_features = n, out_features = m, weight = fst wb, bias = snd wb \<rparr>"

definition Dense_init ::
  "nat \<Rightarrow> nat \<Rightarrow> (real \<Rightarrow> real) option \<Rightarrow> bool \<Rightarrow> (nat \<Rightarrow> nat \<Rightarrow> real) \<times> (nat \<Rightarrow> real) \<Rightarrow> Dense" where
  "Dense_init n m activation with_bias wb =
     \<lparr> dense_in = n, dense_out = m, dense_weight = fst wb,
       dense_bias = (if with_bias then Some (snd wb) else None),
       dense_activation = activation \<rparr>"

section \<open>EquivariantCompressionLayer\<close>

record EquivariantCompressionLayer =
  fc_scalar_weights_0 :: Linear
  fc_scalar_weights_2 :: Linear

text \<open>\<^verbatim>\<open>__init__\<close> (lines 14-21).\<close>

definition EquivariantCompressionLayer_init :: "nat \<Rightarrow> nat \<Rightarrow> init \<Rightarrow> EquivariantCompressionLayer" where
  "EquivariantCompressionLayer_init num_vector_channels compressed_channels ini =
     \<lparr> fc_scalar_weights_0 = Linear_init num_vector_channels 32 (ini 0),
       fc_scalar_weights_2 = Linear_init 32 compressed_channels (ini 1) \<rparr>"

text \<open>The \<^verbatim>\<open>nn.Sequential\<close> of lines 16-21: Linear, ReLU, Linear, Softmax.\<close>

definition fc_scalar_weights :: "EquivariantCompressionLayer \<Rightarrow> tensor \<Rightarrow> error + tensor" where
  "fc_scalar_weights self x =
     ebind (Linear_forward (fc_scalar_weights_0 self) x) (\<lambda>h.
     ebind (Linear_forward (fc_scalar_weights_2 self) (ReLU h)) (\<lambda>y.
     Inr (Softmax y)))"

text \<open>\<^verbatim>\<open>forward\<close> (lines 23-38).\<close>

definition EquivariantCompressionLayer_forward ::
  "EquivariantCompressionLayer \<Rightarrow> tensor \<Rightarrow> tensor io" where
  "EquivariantCompressionLayer_forward self vectors =
     iobind (pure (line 27 (torch_norm vectors (-1) False))) (\<lambda>scalar_invariants.
     iobind (pure (line 30 (fc_scalar_weights self scalar_invariants))) (\<lambda>weights.
     iobind print_newline (\<lambda>_.
     iobind (pure (line 34 (einsum_bvc_bl_blc vectors weights))) (\<lambda>compressed_vectors.
     ioreturn compressed_vectors))))"

text \<open>A call of the layer with two extra positional arguments, as in
  \<^verbatim>\<open>self.compression_layer(x, 1, 2)\<close>: \<^verbatim>\<open>forward(self, vectors)\<close> takes one argument
  besides \<open>self\<close>, so the call raises a \<^verbatim>\<open>TypeError\<close>.\<close>

definition EquivariantCompressionLayer_call_extra_args ::
  "EquivariantCompressionLayer \<Rightarrow> tensor \<Rightarrow> int \<Rightarrow> int \<Rightarrow> tensor io" where
  "EquivariantCompressionLayer_call_extra_args self vectors a b = pure (raise TypeError)"

section \<open>EquivariantReconstructionLayer\<close>

record EquivariantReconstructionLayer =
  compressed_channels :: nat
  reconstructed_channels :: nat
  fc_scalars_0 :: Linear
  fc_scalars_2 :: Linear

text \<open>\<^verbatim>\<open>__init__\<close> (lines 41-49).\<close>

definition EquivariantReconstructionLayer_init ::
  "nat \<Rightarrow> nat \<Rightarrow> init \<Rightarrow> EquivariantReconstructionLayer" where
  "EquivariantReconstructionLayer_init compressed reconstructed ini =
     \<lparr> compressed_channels = compressed,
       reconstructed_channels = reconstructed,
       fc_scalars_0 = Linear_init compressed 32 (ini 0),
       fc_scalars_2 = Linear_init 32 (reconstructed * compressed) (ini 1) \<rparr>"

definition fc_scalars :: "EquivariantReconstructionLayer \<Rightarrow> tensor \<Rightarrow> error + tensor" where
  "fc_scalars self x =
     ebind (Linear_forward (fc_scalars_0 self) x) (\<lambda>h.
     Linear_forward (fc_scalars_2 self) (ReLU h))"

text \<open>\<^verbatim>\<open>forward\<close> (lines 51-72).\<close>

definition EquivariantReconstructionLayer_forward ::
  "EquivariantReconstructionLayer \<Rightarrow> tensor \<Rightarrow> error + tensor" where
  "EquivariantReconstructionLayer_forward self compressed_vectors =
     ebind (line 55 (torch_norm compressed_vectors (-1) False)) (\<lambda>scalar_invariants.
     ebind (line 58 (ebind (fc_scalars self scalar_invariants) (\<lambda>y.
              torch_view y (reconstructed_channels self) (compressed_channels self)))) (\<lambda>scalar_weights.
     ebind (line 64 (einsum_bci_bcj_bcij compressed_vectors compressed_vectors)) (\<lambda>rank2_tensors.
     ebind (line 69 (einsum_brc_bcij_brij scalar_weights rank2_tensors)) (\<lambda>reconstructed_tensors.
     Inr reconstructed_tensors))))"

section \<open>PaiNNInteraction\<close>

record PaiNNInteraction =
  n_atom_basis_I :: nat
  interatomic_context_net_0 :: Dense
  interatomic_context_net_1 :: Dense
  compression_layer :: EquivariantCompressionLayer
  reconstruction_layer :: EquivariantReconstructionLayer

text \<open>\<^verbatim>\<open>__init__\<close> (lines 77-97).\<close>

definition PaiNNInteraction_init :: "nat \<Rightarrow> (real \<Rightarrow> real) option \<Rightarrow> init \<Rightarrow> PaiNNInteraction" where
  "PaiNNInteraction_init n_atom_basis activation ini =
     \<lparr> n_atom_basis_I = n_atom_basis,
       interatomic_context_net_0 = Dense_init n_atom_basis n_atom_basis activation True (ini 0),
       interatomic_context_net_1 = Dense_init n_atom_basis (3 * n_atom_basis) None True (ini 1),
       compression_layer =
         EquivariantCompressionLayer_init (n_atom_basis * 2) n_atom_basis (\<lambda>k. ini (2 + k)),
       reconstruction_layer =
         EquivariantReconstructionLayer_init n_atom_basis n_atom_basis (\<lambda>k. ini (4 + k)) \<rparr>"

definition interatomic_context_net :: "PaiNNInteraction \<Rightarrow> tensor \<Rightarrow> error + tensor" where
  "interatomic_context_net self x =
     ebind (Dense_forward (interatomic_context_net_0 self) x)
       (Dense_forward (interatomic_context_net_1 self))"

text \<open>\<^verbatim>\<open>forward\<close> (lines 99-141). On line 136 the argument \<^verbatim>\<open>torch.transpose(mui)\<close> is
  evaluated first, then the layer is called with the extra arguments \<^verbatim>\<open>1, 2\<close>.\<close>

definition PaiNNInteraction_forward ::
  "PaiNNInteraction \<Rightarrow> tensor \<Rightarrow> tensor \<Rightarrow> tensor \<Rightarrow> tensor \<Rightarrow> int list \<Rightarrow> int list \<Rightarrow> nat
     \<Rightarrow> (tensor \<times> tensor \<times> tensor) io" where
  "PaiNNInteraction_forward self q mu Wij dir_ij idx_i idx_j n_atoms =
     iobind (pure (line 122 (interatomic_context_net self q))) (\<lambda>x.
     iobind (pure (line 123 (index_rows x idx_j))) (\<lambda>xj.
     iobind (pure (line 124 (index_rows mu idx_j))) (\<lambda>muj.
     iobind (pure (line 125 (index_rows mu idx_i))) (\<lambda>mui.
     iobind (pure (line 126 (torch_mul Wij xj))) (\<lambda>x.
     iobind (pure (line 128 (ebind (torch_split x (n_atom_basis_I self)) unpack3))) (\<lambda>(dq, dmuR, dmumu).
     iobind (pure (line 129 (scatter_add dq idx_i n_atoms))) (\<lambda>dq.
     iobind (called_at 130 (EquivariantCompressionLayer_forward (compression_layer self) muj))
       (\<lambda>compressed_vector_vj.
     iobind (pure (line 131
       (ebind (torch_mul dmuR (unsqueeze_last dir_ij)) (\<lambda>a.
        ebind (torch_mul dmumu compressed_vector_vj) (\<lambda>b.
        torch_add a b))))) (\<lambda>dmu.
     iobind (pure (line 132 (scatter_add dmu idx_i n_atoms))) (\<lambda>dmu.
     iobind (pure (line 136 (torch_transpose_missing_dims mui))) (\<lambda>mui_t.
     iobind (called_at 136
       (EquivariantCompressionLayer_call_extra_args (compression_layer self) mui_t 1 2))
       (\<lambda>compressed_vector_vi.
     iobind (pure (line 137 (torch_add q dq))) (\<lambda>q.
     iobind (pure (line 138
       (ebind (torch_transpose compressed_vector_vi 1 2) (torch_add dmu)))) (\<lambda>mu.
     iobind (pure (line 139
       (ebind (torch_transpose mu 1 2)
          (EquivariantReconstructionLayer_forward (reconstruction_layer self))))) (\<lambda>dtm.
     ioreturn (q, mu, dtm))))))))))))))))"

text \<open>The parts of \<^verbatim>\<open>PaiNNInteraction.forward\<close>. Lines 122 to 129 yield the per-edge
  scalar messages \<open>dq\<close> of line 128 and their per-atom aggregate of line 129 (with the
  other values the later lines use). Lines 130 to 132 yield the per-edge vector messages
  \<open>dmu\<close> of line 131 and their aggregate of line 132. Lines 136 to 141 continue from the
  aggregates.\<close>

definition interaction_scalar_aggregation ::
  "PaiNNInteraction \<Rightarrow> tensor \<Rightarrow> tensor \<Rightarrow> tensor \<Rightarrow> int list \<Rightarrow> int list \<Rightarrow> nat
     \<Rightarrow> error + (tensor \<times> tensor \<times> tensor \<times> tensor \<times> tensor \<times> tensor)" where
  "interaction_scalar_aggregation self q mu Wij idx_i idx_j n_atoms =
     ebind (line 122 (interatomic_context_net self q)) (\<lambda>x.
     ebind (line 123 (index_rows x idx_j)) (\<lambda>xj.
     ebind (line 124 (index_rows mu idx_j)) (\<lambda>muj.
     ebind (line 125 (index_rows mu idx_i)) (\<lambda>mui.
     ebind (line 126 (torch_mul Wij xj)) (\<lambda>x.
     ebind (line 128 (ebind (torch_split x (n_atom_basis_I self)) unpack3))
       (\<lambda>(dq_edges, dmuR, dmumu).
     ebind (line 129 (scatter_add dq_edges idx_i n_atoms)) (\<lambda>dq.
     Inr (dq_edges, dq, dmuR, dmumu, muj, mui))))))))"

definition interaction_aggregation ::
  "PaiNNInteraction \<Rightarrow> tensor \<Rightarrow> tensor \<Rightarrow> tensor \<Rightarrow> tensor \<Rightarrow> int list \<Rightarrow> int list \<Rightarrow> nat
     \<Rightarrow> (tensor \<times> tensor \<times> tensor \<times> tensor \<times> tensor) io" where
  "interaction_aggregation self q mu Wij dir_ij idx_i idx_j n_atoms =
     iobind (pure (interaction_scalar_aggregation self q mu Wij idx_i idx_j n_atoms))
       (\<lambda>(dq_edges, dq, dmuR, dmumu, muj, mui).
     iobind (called_at 130 (EquivariantCompressionLayer_forward (compression_layer self) muj))
       (\<lambda>compressed_vector_vj.
     iobind (pure (line 131
       (ebind (torch_mul dmuR (unsqueeze_last dir_ij)) (\<lambda>a.
        ebind (torch_mul dmumu compressed_vector_vj) (\<lambda>b.
        torch_add a b))))) (\<lambda>dmu_edges.
     iobind (pure (line 132 (scatter_add dmu_edges idx_i n_atoms))) (\<lambda>dmu.
     ioreturn (dq_edges, dq, dmu_edges, dmu, mui)))))"

definition interaction_update ::
  "PaiNNInteraction \<Rightarrow> tensor \<Rightarrow> tensor \<Rightarrow> tensor \<Rightarrow> tensor \<Rightarrow> (tensor \<times> tensor \<times> tensor) io" where
  "interaction_update self q dq dmu mui =
     iobind (pure (line 136 (torch_transpose_missing_dims mui))) (\<lambda>mui_t.
     iobind (called_at 136
       (EquivariantCompressionLayer_call_extra_args (compression_layer self) mui_t 1 2))
       (\<lambda>compressed_vector_vi.
     iobind (pure (line 137 (torch_add q dq))) (\<lambda>q.
     iobind (pure (line 138
       (ebind (torch_transpose compressed_vector_vi 1 2) (torch_add dmu)))) (\<lambda>mu.
     iobind (pure (line 139
       (ebind (torch_transpose mu 1 2)
          (EquivariantReconstructionLayer_forward (reconstruction_layer self))))) (\<lambda>dtm.
     ioreturn (q, mu, dtm))))))"

section \<open>PaiNNMixing\<close>

record PaiNNMixing =
  n_atom_basis_M :: nat
  intraatomic_context_net_0 :: Dense
  intraatomic_context_net_1 :: Dense
  mu_channel_mix :: Dense
  epsilon :: real

text \<open>\<^verbatim>\<open>__init__\<close> (lines 147-164).\<close>

definition PaiNNMixing_init :: "nat \<Rightarrow> (real \<Rightarrow> real) option \<Rightarrow> real \<Rightarrow> init \<Rightarrow> PaiNNMixing" where
  "PaiNNMixing_init n_atom_basis activation eps ini =
     \<lparr> n_atom_basis_M = n_atom_basis,
       intraatomic_context_net_0 = Dense_init (2 * n_atom_basis) n_atom_basis activation True (ini 0),
       intraatomic_context_net_1 = Dense_init n_atom_basis (3 * n_atom_basis) None True (ini 1),
       mu_channel_mix = Dense_init n_atom_basis (2 * n_atom_basis) None False (ini 2),
       epsilon = eps \<rparr>"

definition intraatomic_context_net :: "PaiNNMixing \<Rightarrow> tensor \<Rightarrow> error + tensor" where
  "intraatomic_context_net self x =
     ebind (Dense_forward (intraatomic_context_net_0 self) x)
       (Dense_forward (intraatomic_context_net_1 self))"

text \<open>\<^verbatim>\<open>forward\<close> (lines 166-195).\<close>

definition PaiNNMixing_forward ::
  "PaiNNMixing \<Rightarrow> tensor \<Rightarrow> tensor \<Rightarrow> tensor \<Rightarrow> error + (tensor \<times> tensor)" where
  "PaiNNMixing_forward self q mu dtm =
     ebind (line 177 (Dense_forward (mu_channel_mix self) mu)) (\<lambda>mu_mix.
     ebind (line 178 (ebind (torch_split mu_mix (n_atom_basis_M self)) unpack2)) (\<lambda>(mu_V, mu_W).
     ebind (line 179
       (ebind (torch_sum (map_tensor (\<lambda>v. v\<^sup>2) mu_V) (-2) True) (\<lambda>s.
        Inr (map_tensor sqrt (map_tensor (\<lambda>v. v + epsilon self) s))))) (\<lambda>mu_Vn.
     ebind (line 181 (torch_cat q mu_Vn)) (\<lambda>ctx.
     ebind (line 182 (intraatomic_context_net self ctx)) (\<lambda>x.
     ebind (line 184 (ebind (torch_split x (n_atom_basis_M self)) unpack3))
       (\<lambda>(dq_intra, dmu_intra, dqmu_intra).
     ebind (line 185 (torch_mul dmu_intra mu_W)) (\<lambda>dmu_intra.
     ebind (line 187
       (ebind (torch_mul mu_V mu_W) (\<lambda>p.
        ebind (torch_sum p 1 True) (\<lambda>s.
        torch_mul dqmu_intra s)))) (\<lambda>dqmu_intra.
     ebind (line 191 (ebind (torch_cat dq_intra dqmu_intra) (torch_add q))) (\<lambda>q.
     ebind (line 192 (ebind (torch_transpose q 1 2) (einsum_bfij_bfj_bfi dtm))) (\<lambda>tensor_vector.
     ebind (line 193
       (ebind (torch_transpose tensor_vector 1 2) (\<lambda>t.
        ebind (torch_cat dmu_intra t) (torch_add mu)))) (\<lambda>mu.
     Inr (q, mu))))))))))))"

section \<open>PaiNN\<close>

text \<open>The caller's dictionary of tensors: the four entries \<^verbatim>\<open>forward\<close> reads and the
  two it writes.\<close>

record inputs =
  Z :: "int list"
  Rij :: tensor
  idx_i :: "int list"
  idx_j :: "int list"
  scalar_representation :: "tensor option"
  vector_representation :: "tensor option"

text \<open>The radial basis, the cutoff function and the electronic embeddings are
  collaborators defined outside the module: they are parameters of the model.\<close>

record PaiNN =
  n_atom_basis :: nat
  n_interactions :: nat
  cutoff_fn :: "tensor \<Rightarrow> error + tensor"
  radial_basis :: "tensor \<Rightarrow> error + tensor"
  embedding :: "int list \<Rightarrow> error + tensor"
  electronic_embeddings :: "(tensor \<Rightarrow> inputs \<Rightarrow> error + tensor) list"
  share_filters :: bool
  filter_net :: Dense
  interactions :: "PaiNNInteraction list"
  mixing :: "PaiNNMixing list"

text \<open>\<^verbatim>\<open>__init__\<close> (lines 209-283); \<open>n_rbf\<close> is \<^verbatim>\<open>radial_basis.n_rbf\<close>. The weights of
  the filter network are \<open>ini 0\<close>, the table of the default embedding is \<open>ini 1\<close>, and
  the blocks draw theirs from \<open>ini_I\<close> and \<open>ini_M\<close>.\<close>

definition PaiNN_init ::
  "nat \<Rightarrow> nat \<Rightarrow> (tensor \<Rightarrow> error + tensor) \<Rightarrow> nat \<Rightarrow> (tensor \<Rightarrow> error + tensor)
     \<Rightarrow> (real \<Rightarrow> real) option \<Rightarrow> bool \<Rightarrow> bool \<Rightarrow> real \<Rightarrow> (int list \<Rightarrow> error + tensor) option
     \<Rightarrow> (tensor \<Rightarrow> inputs \<Rightarrow> error + tensor) list option
     \<Rightarrow> init \<Rightarrow> (nat \<Rightarrow> init) \<Rightarrow> (nat \<Rightarrow> init) \<Rightarrow> PaiNN" where
  "PaiNN_init n_atom_basis_arg n_interactions_arg radial_basis_arg n_rbf cutoff_fn_arg activation
       shared_interactions shared_filters eps nuclear_embedding electronic_embeddings_arg
       ini ini_I ini_M =
     \<lparr> n_atom_basis = n_atom_basis_arg div 2,
       n_interactions = n_interactions_arg,
       cutoff_fn = cutoff_fn_arg,
       radial_basis = radial_basis_arg,
       embedding =
         (case nuclear_embedding of
            None \<Rightarrow> Embedding_forward
              \<lparr> num_embeddings = 100, embedding_dim = n_atom_basis_arg, table = fst (ini 1) \<rparr>
          | Some e \<Rightarrow> e),
       electronic_embeddings =
         (case electronic_embeddings_arg of None \<Rightarrow> [] | Some es \<Rightarrow> es),
       share_filters = shared_filters,
       filter_net =
         (if shared_filters then Dense_init n_rbf (3 * n_atom_basis_arg) None True (ini 0)
          else Dense_init n_rbf (n_interactions_arg * n_atom_basis_arg * 3) None True (ini 0)),
       interactions =
         replicate_module (\<lambda>k. PaiNNInteraction_init (n_atom_basis_arg div 2) activation (ini_I k))
           n_interactions_arg shared_interactions,
       mixing =
         replicate_module (\<lambda>k. PaiNNMixing_init (n_atom_basis_arg div 2) activation eps (ini_M k))
           n_interactions_arg shared_interactions \<rparr>"

text \<open>The loop of lines 318-319 over the electronic embeddings.\<close>

fun add_electronic_embeddings ::
  "(tensor \<Rightarrow> inputs \<Rightarrow> error + tensor) list \<Rightarrow> inputs \<Rightarrow> tensor \<Rightarrow> error + tensor" where
  "add_electronic_embeddings [] inp q = Inr q"
| "add_electronic_embeddings (e # es) inp q =
     ebind (line 319 (ebind (e q inp) (torch_add q))) (add_electronic_embeddings es inp)"

text \<open>The loop of lines 325-327 over the pairs of blocks; \<open>i\<close> is the counter of
  \<^verbatim>\<open>enumerate\<close>.\<close>

fun interaction_loop ::
  "(PaiNNInteraction \<times> PaiNNMixing) list \<Rightarrow> nat \<Rightarrow> tensor list \<Rightarrow> tensor \<Rightarrow> int list \<Rightarrow> int list
     \<Rightarrow> nat \<Rightarrow> tensor \<Rightarrow> tensor \<Rightarrow> (tensor \<times> tensor) io" where
  "interaction_loop [] i filter_list dir_ij ii ij n_atoms q mu = ioreturn (q, mu)"
| "interaction_loop ((interaction, mix) # rest) i filter_list dir_ij ii ij n_atoms q mu =
     iobind (pure (line 326 (list_index filter_list i))) (\<lambda>Wij.
     iobind (called_at 326 (PaiNNInteraction_forward interaction q mu Wij dir_ij ii ij n_atoms))
       (\<lambda>(q, mu, t).
     iobind (pure (line 327 (PaiNNMixing_forward mix q mu t))) (\<lambda>(q, mu).
     interaction_loop rest (Suc i) filter_list dir_ij ii ij n_atoms q mu)))"

text \<open>\<^verbatim>\<open>forward\<close> (lines 285-334).\<close>

definition PaiNN_forward :: "PaiNN \<Rightarrow> inputs \<Rightarrow> inputs io" where
  "PaiNN_forward self inp =
     (let atomic_numbers = Z inp; r_ij = Rij inp; ii = idx_i inp; ij = idx_j inp;
          n_atoms = length atomic_numbers
      in
     iobind (pure (line 305 (torch_norm r_ij 1 True))) (\<lambda>d_ij.
     iobind (pure (line 306 (torch_div r_ij d_ij))) (\<lambda>dir_ij.
     iobind (pure (line 307 (radial_basis self d_ij))) (\<lambda>phi_ij.
     iobind (pure (line 308 (cutoff_fn self d_ij))) (\<lambda>fcut.
     iobind (pure (line 310
       (ebind (Dense_forward (filter_net self) phi_ij) (\<lambda>f.
        torch_mul f (unsqueeze_last fcut))))) (\<lambda>filters.
     iobind (pure
       (if share_filters self then Inr (replicate (n_interactions self) filters)
        else line 314 (torch_split filters (3 * n_atom_basis self)))) (\<lambda>filter_list.
     iobind (pure (line 317 (embedding self atomic_numbers))) (\<lambda>q.
     iobind (pure (add_electronic_embeddings (electronic_embeddings self) inp q)) (\<lambda>q.
     iobind (pure (line 320 (unsqueeze1 q))) (\<lambda>q.
     iobind (pure (line 324 (ebind (list_index (shape q) 0) (\<lambda>qs0.
                             ebind (list_index (shape q) 2) (\<lambda>qs2.
                             Inr (torch_zeros [qs0, 3, qs2 * 2])))))) (\<lambda>mu.
     iobind (interaction_loop (zip (interactions self) (mixing self)) 0 filter_list dir_ij ii ij
               n_atoms q mu) (\<lambda>(q, mu).
     iobind (pure (line 328 (squeeze1 q))) (\<lambda>q.
     ioreturn (inp\<lparr> scalar_representation := Some q, vector_representation := Some mu \<rparr>))))))))))))))"

section \<open>Example inputs\<close>

definition zero_init :: init where
  "zero_init k = (\<lambda>r c. 0, \<lambda>r. 0)"

definition ones :: "nat list \<Rightarrow> tensor" where
  "ones s = Tensor s (\<lambda>i. 1)"

text \<open>The invariants and the weights that a compression layer with zero weights computes
  for one atom with two vector channels, for one compressed channel and for none.\<close>

definition example_invariants :: tensor where
  "example_invariants = projr (torch_norm (ones [1, 2, 3]) (-1) False)"

definition example_weights :: "nat \<Rightarrow> tensor" where
  "example_weights C =
     projr (fc_scalar_weights (EquivariantCompressionLayer_init 2 C zero_init) example_invariants)"


text \<open>The shapes of the spec's data model for \<^verbatim>\<open>PaiNNInteraction.forward\<close> with basis
  width \<open>F\<close>: scalar features \<open>[atoms, 1, F]\<close>, vector features \<open>[atoms, 3, 2F]\<close>, one
  filter row of width \<open>3F\<close> and one bond direction per edge, and edge indices in
  \<open>[0, atoms)\<close>.\<close>

definition documented_shapes ::
  "nat \<Rightarrow> tensor \<Rightarrow> tensor \<Rightarrow> tensor \<Rightarrow> tensor \<Rightarrow> int list \<Rightarrow> int list \<Rightarrow> nat \<Rightarrow> bool" where
  "documented_shapes F q mu Wij dir_ij ii ij n_atoms \<longleftrightarrow>
     shape q = [n_atoms, 1, F] \<and> shape mu = [n_atoms, 3, 2 * F] \<and>
     length ij = length ii \<and>
     shape Wij = [length ii, 1, 3 * F] \<and> shape dir_ij = [length ii, 3] \<and>
     list_all (\<lambda>k. 0 \<le> k \<and> k < int n_atoms) ii \<and>
     list_all (\<lambda>k. 0 \<le> k \<and> k < int n_atoms) ij"

text \<open>Where an exception of \<^verbatim>\<open>PaiNNInteraction.forward\<close> comes from: the self-term on line
  136 (a \<^verbatim>\<open>TypeError\<close>), or one of the statements before it (lines 122 to 132).\<close>

definition early_or_self_term :: "exc_kind \<Rightarrow> nat list \<Rightarrow> bool" where
  "early_or_self_term k tb =
     (k = TypeError \<and> tb = [136] \<or> tb \<noteq> [] \<and> 122 \<le> hd tb \<and> hd tb \<le> 132)"

text \<open>The end-to-end example of the spec: two atoms, each the other's neighbour, bond
  vectors \<open>(1, 0, 0)\<close> and \<open>(-1, 0, 0)\<close>.\<close>

definition example_inputs :: inputs where
  "example_inputs =
     \<lparr> Z = [1, 1],
       Rij = Tensor [2, 3] (\<lambda>i. if i ! 1 = 0 then (if i ! 0 = 0 then 1 else -1) else 0),
       idx_i = [0, 1], idx_j = [1, 0],
       scalar_representation = None, vector_representation = None \<rparr>"

section \<open>Properties\<close>

lemma ebind_simps [simp]:
  "ebind (Inl e) f = Inl e"
  "ebind (Inr x) f = f x"
  by (simp_all add: ebind_def)

lemma line_simps [simp]:
  "line n (Inl (k, tb)) = Inl (k, n # tb)"
  "line n (Inr x) = Inr x"
  by (simp_all add: line_def)

lemma line_raise [simp]: "line n (raise k) = Inl (k, [n])"
  by (simp add: raise_def)

lemma iobind_simps [simp]:
  "iobind (pure (Inl e)) f out = (Inl e, out)"
  "iobind (pure (Inr x)) f out = f x out"
  "iobind print_newline g out = g () (out @ [CHR 0x0A])"
  by (simp_all add: iobind_def pure_def print_newline_def)

lemma shape_map_tensor [simp]: "shape (map_tensor f x) = shape x"
  by (simp add: map_tensor_def)

lemma entry_map_tensor [simp]: "entry (map_tensor f x) i = f (entry x i)"
  by (simp add: map_tensor_def)

lemma wrap_dim_last: "wrap_dim r (-1) = Inr (r - 1)"
  by (cases r) (simp_all add: wrap_dim_def Let_def)

lemma shape_reduce_sum_last:
  "d = length (shape x) - 1 \<Longrightarrow> shape (reduce_sum x d False) = butlast (shape x)"
  by (cases "shape x" rule: rev_cases) (simp_all add: reduce_sum_def)

lemma torch_norm_last:
  "\<exists>n. torch_norm x (-1) False = Inr n \<and> shape n = butlast (shape x)"
  by (simp add: torch_norm_def torch_sum_def wrap_dim_last shape_reduce_sum_last)

lemma Linear_forward_ok:
  "shape x = s @ [in_features L] \<Longrightarrow>
   \<exists>y. Linear_forward L x = Inr y \<and> shape y = s @ [out_features L]"
  by (simp add: Linear_forward_def)

lemma Linear_forward_shape:
  "Linear_forward L x = Inr y \<Longrightarrow> shape y = butlast (shape x) @ [out_features L]"
  by (auto simp: Linear_forward_def raise_def split: if_splits)

lemma Softmax_row:
  assumes "shape y = s @ [c]" "0 < c"
  shows "entry (Softmax y) (p @ [l]) = exp (entry y (p @ [l])) / (\<Sum>k<c. exp (entry y (p @ [k])))"
  using assms by (simp add: Softmax_def)

lemma Softmax_nonneg:
  assumes "shape y \<noteq> []"
  shows "0 \<le> entry (Softmax y) i"
  using assms by (simp add: Softmax_def sum_nonneg)

lemma Softmax_sum:
  assumes "shape y = s @ [c]" "0 < c"
  shows "(\<Sum>l<c. entry (Softmax y) (p @ [l])) = 1"
proof -
  have pos: "0 < (\<Sum>k<c. exp (entry y (p @ [k])))"
    using assms(2) by (intro sum_pos) auto
  have "(\<Sum>l<c. entry (Softmax y) (p @ [l]))
        = (\<Sum>l<c. exp (entry y (p @ [l])) / (\<Sum>k<c. exp (entry y (p @ [k]))))"
    using assms by (simp add: Softmax_row)
  also have "\<dots> = (\<Sum>l<c. exp (entry y (p @ [l]))) / (\<Sum>k<c. exp (entry y (p @ [k])))"
    by (simp add: sum_divide_distrib [symmetric])
  also have "\<dots> = 1" using pos by simp
  finally show ?thesis .
qed

lemma shape_Softmax [simp]: "shape (Softmax y) = shape y"
  by (simp add: Softmax_def)

lemma fc_scalar_weights_shape:
  assumes "fc_scalar_weights self x = Inr w"
  shows "\<exists>y. w = Softmax y \<and> shape y = butlast (shape x) @ [out_features (fc_scalar_weights_2 self)]"
proof -
  from assms obtain h y where h: "Linear_forward (fc_scalar_weights_0 self) x = Inr h"
    and y: "Linear_forward (fc_scalar_weights_2 self) (ReLU h) = Inr y" and w: "w = Softmax y"
    by (auto simp: fc_scalar_weights_def ebind_def split: sum.splits)
  from h have "shape h = butlast (shape x) @ [out_features (fc_scalar_weights_0 self)]"
    by (rule Linear_forward_shape)
  with y have "shape y = butlast (shape x) @ [out_features (fc_scalar_weights_2 self)]"
    by (simp add: Linear_forward_shape ReLU_def)
  with w show ?thesis by blast
qed

text \<open>C5, as amended. The weights of line 30, computed from the channel norms of line 27, are
  non-negative in every entry, and along the last axis (the compressed channels) they sum to
  1, provided the layer has at least one compressed channel.\<close>

theorem compression_weights_distribution:
  assumes "torch_norm vectors (-1) False = Inr scalar_invariants"
    and "fc_scalar_weights self scalar_invariants = Inr weights"
    and "0 < out_features (fc_scalar_weights_2 self)"
  shows "(\<forall>i. 0 \<le> entry weights i) \<and>
         (\<forall>p. (\<Sum>l<out_features (fc_scalar_weights_2 self). entry weights (p @ [l])) = 1)"
proof -
  from fc_scalar_weights_shape [OF assms(2)] obtain y where w: "weights = Softmax y"
    and y: "shape y = butlast (shape scalar_invariants) @ [out_features (fc_scalar_weights_2 self)]"
    by blast
  from y have "shape y \<noteq> []" by simp
  then have "\<forall>i. 0 \<le> entry weights i" unfolding w by (simp add: Softmax_nonneg)
  moreover have "\<forall>p. (\<Sum>l<out_features (fc_scalar_weights_2 self). entry weights (p @ [l])) = 1"
    unfolding w using Softmax_sum [OF y assms(3)] by simp
  ultimately show ?thesis by blast
qed


lemma shape_ReLU [simp]: "shape (ReLU x) = shape x"
  by (simp add: ReLU_def)

lemma bdim_same [simp]: "bdim a a = Some a"
  by (simp add: bdim_def)

lemma bix_less: "k < d \<Longrightarrow> bix d k = k"
  by (auto simp: bix_def)

lemma fc_scalar_weights_ok:
  assumes "shape x = s @ [V]"
  shows "\<exists>w. fc_scalar_weights (EquivariantCompressionLayer_init V C ini) x = Inr w
              \<and> shape w = s @ [C]"
proof -
  let ?self = "EquivariantCompressionLayer_init V C ini"
  have "in_features (fc_scalar_weights_0 ?self) = V"
    by (simp add: EquivariantCompressionLayer_init_def Linear_init_def)
  with assms Linear_forward_ok [of x s "fc_scalar_weights_0 ?self"]
  obtain h where h: "Linear_forward (fc_scalar_weights_0 ?self) x = Inr h"
    and sh: "shape h = s @ [32]"
    by (auto simp: EquivariantCompressionLayer_init_def Linear_init_def)
  have "shape (ReLU h) = s @ [in_features (fc_scalar_weights_2 ?self)]"
    using sh by (simp add: EquivariantCompressionLayer_init_def Linear_init_def)
  from Linear_forward_ok [OF this]
  obtain y where y: "Linear_forward (fc_scalar_weights_2 ?self) (ReLU h) = Inr y"
    and sy: "shape y = s @ [C]"
    by (auto simp: EquivariantCompressionLayer_init_def Linear_init_def)
  show ?thesis using h y sy by (simp add: fc_scalar_weights_def)
qed

text \<open>C6, as amended. On an input of shape \<open>[B, V, 3]\<close>, with exactly one batch axis, the
  forward pass of a layer constructed for
  \<open>V\<close> vector channels and \<open>C\<close> compressed channels returns a tensor of shape
  \<open>[B, C, 3]\<close> (after printing one newline), and its entry \<open>[b, l, c]\<close> is the weight
  \<open>[b, l]\<close> times the sum over all \<open>V\<close> input channels of their component \<open>c\<close>: the
  weight does not depend on the input channel.\<close>

theorem compression_forward_uniform_weight:
  assumes "shape vectors = [B, V, 3]"
  shows "\<exists>scalar_invariants weights t.
     torch_norm vectors (-1) False = Inr scalar_invariants \<and>
     fc_scalar_weights (EquivariantCompressionLayer_init V C ini) scalar_invariants = Inr weights \<and>
     shape weights = [B, C] \<and>
     EquivariantCompressionLayer_forward (EquivariantCompressionLayer_init V C ini) vectors out
       = (Inr t, out @ [CHR 0x0A]) \<and>
     shape t = [B, C, 3] \<and>
     (\<forall>b<B. \<forall>l<C. \<forall>c<3.
        entry t [b, l, c] = entry weights [b, l] * (\<Sum>v<V. entry vectors [b, v, c]))"
proof -
  let ?self = "EquivariantCompressionLayer_init V C ini"
  from torch_norm_last [of vectors] assms
  obtain n where n: "torch_norm vectors (-1) False = Inr n" and sn: "shape n = [B] @ [V]"
    by auto
  from fc_scalar_weights_ok [OF sn, of C ini]
  obtain w where w: "fc_scalar_weights ?self n = Inr w" and sw: "shape w = [B, C]"
    by auto
  define t where "t = Tensor [B, C, 3]
     (\<lambda>i. \<Sum>v<V. entry vectors [bix B (i ! 0), v, i ! 2] * entry w [bix B (i ! 0), i ! 1])"
  have e: "einsum_bvc_bl_blc vectors w = Inr t"
    using assms sw by (simp add: einsum_bvc_bl_blc_def t_def)
  have f: "EquivariantCompressionLayer_forward ?self vectors out = (Inr t, out @ [CHR 0x0A])"
    using n w e by (simp add: EquivariantCompressionLayer_forward_def ioreturn_def)
  have v: "entry t [b, l, c] = entry w [b, l] * (\<Sum>v<V. entry vectors [b, v, c])"
    if "b < B" for b l c
    using that by (simp add: t_def bix_less sum_distrib_left mult.commute)
  have "shape t = [B, C, 3]" by (simp add: t_def)
  with n w sw f v show ?thesis by blast
qed

lemma example_invariants:
  "torch_norm (ones [1, 2, 3]) (-1) False = Inr example_invariants
   \<and> shape example_invariants = [1] @ [2]"
  using torch_norm_last [of "ones [1, 2, 3]"] by (auto simp: example_invariants_def ones_def)

lemma example_weights:
  "fc_scalar_weights (EquivariantCompressionLayer_init 2 C zero_init) example_invariants
     = Inr (example_weights C)
   \<and> shape (example_weights C) = [1, C]"
  using fc_scalar_weights_ok [of example_invariants "[1]" 2 C zero_init] example_invariants
  by (auto simp: example_weights_def)

theorem compression_weights_distribution_witness:
  "torch_norm (ones [1, 2, 3]) (-1) False = Inr example_invariants \<and>
   fc_scalar_weights (EquivariantCompressionLayer_init 2 1 zero_init) example_invariants
     = Inr (example_weights 1) \<and>
   0 < out_features (fc_scalar_weights_2 (EquivariantCompressionLayer_init 2 1 zero_init)) \<and>
   (\<forall>i. 0 \<le> entry (example_weights 1) i) \<and>
   (\<forall>p. (\<Sum>l<out_features (fc_scalar_weights_2 (EquivariantCompressionLayer_init 2 1 zero_init)).
           entry (example_weights 1) (p @ [l])) = 1)"
proof -
  have a: "torch_norm (ones [1, 2, 3]) (-1) False = Inr example_invariants"
    using example_invariants by simp
  have b: "fc_scalar_weights (EquivariantCompressionLayer_init 2 1 zero_init) example_invariants
     = Inr (example_weights 1)"
    using example_weights by simp
  have c: "0 < out_features (fc_scalar_weights_2 (EquivariantCompressionLayer_init 2 1 zero_init))"
    by (simp add: EquivariantCompressionLayer_init_def Linear_init_def)
  from compression_weights_distribution [OF a b c] a b c show ?thesis by blast
qed

text \<open>C5 as stated fails for a layer without compressed channels: its weights have shape
  \<open>[1, 0]\<close>, and the sum over the empty channel axis is 0.\<close>

theorem compression_weights_no_channels_counterexample:
  "torch_norm (ones [1, 2, 3]) (-1) False = Inr example_invariants \<and>
   fc_scalar_weights (EquivariantCompressionLayer_init 2 0 zero_init) example_invariants
     = Inr (example_weights 0) \<and>
   shape (example_weights 0) = [1, 0] \<and>
   (\<Sum>l<out_features (fc_scalar_weights_2 (EquivariantCompressionLayer_init 2 0 zero_init)).
      entry (example_weights 0) ([0] @ [l])) \<noteq> 1"
  using example_invariants example_weights [of 0]
  by (simp add: EquivariantCompressionLayer_init_def Linear_init_def)

theorem compression_forward_uniform_weight_witness:
  "\<exists>scalar_invariants weights t.
     torch_norm (ones [1, 2, 3]) (-1) False = Inr scalar_invariants \<and>
     fc_scalar_weights (EquivariantCompressionLayer_init 2 1 zero_init) scalar_invariants = Inr weights \<and>
     shape weights = [1, 1] \<and>
     EquivariantCompressionLayer_forward (EquivariantCompressionLayer_init 2 1 zero_init) (ones [1, 2, 3]) []
       = (Inr t, [] @ [CHR 0x0A]) \<and>
     shape t = [1, 1, 3] \<and>
     (\<forall>b<1. \<forall>l<1. \<forall>c<3.
        entry t [b, l, c] = entry weights [b, l] * (\<Sum>v<2. entry (ones [1, 2, 3]) [b, v, c]))"
  by (rule compression_forward_uniform_weight) (simp add: ones_def)

lemma fc_scalars_ok:
  assumes "shape x = s @ [C]"
  shows "\<exists>y. fc_scalars (EquivariantReconstructionLayer_init C R ini) x = Inr y
              \<and> shape y = s @ [R * C]"
proof -
  let ?self = "EquivariantReconstructionLayer_init C R ini"
  have "shape x = s @ [in_features (fc_scalars_0 ?self)]"
    using assms by (simp add: EquivariantReconstructionLayer_init_def Linear_init_def)
  from Linear_forward_ok [OF this]
  obtain h where h: "Linear_forward (fc_scalars_0 ?self) x = Inr h"
    and sh: "shape h = s @ [32]"
    by (auto simp: EquivariantReconstructionLayer_init_def Linear_init_def)
  have "shape (ReLU h) = s @ [in_features (fc_scalars_2 ?self)]"
    using sh by (simp add: EquivariantReconstructionLayer_init_def Linear_init_def)
  from Linear_forward_ok [OF this]
  obtain y where y: "Linear_forward (fc_scalars_2 ?self) (ReLU h) = Inr y"
    and sy: "shape y = s @ [R * C]"
    by (auto simp: EquivariantReconstructionLayer_init_def Linear_init_def)
  show ?thesis using h y sy by (simp add: fc_scalars_def)
qed

lemma torch_view_ok:
  assumes "shape y = [B, R * C]" "0 < R * C"
  shows "\<exists>w. torch_view y R C = Inr w \<and> shape w = [B, R, C]"
  using assms by (simp add: torch_view_def)

text \<open>C7, as amended. For a layer constructed for \<open>C \<ge> 1\<close> compressed and \<open>R \<ge> 1\<close>
  reconstructed channels and an input of shape \<open>[B, C, 3]\<close>, the forward pass returns a
  tensor of shape \<open>[B, R, 3, 3]\<close> whose entry \<open>[b, r, i, j]\<close> is the sum over the
  compressed channels \<open>c\<close> of \<open>coeff [b, r, c]\<close> times the outer product of channel \<open>c\<close>
  with itself, where \<open>coeff\<close> is the reshaped output of the network on the channel norms
  (lines 55-60). Every output tensor is symmetric, and a compressed channel that is the zero
  vector contributes the summand zero.\<close>

theorem reconstruction_forward_outer_products:
  assumes "shape compressed_vectors = [B, C, 3]" and "0 < C" and "0 < R"
  shows "\<exists>scalar_invariants coeff out.
     torch_norm compressed_vectors (-1) False = Inr scalar_invariants \<and>
     ebind (fc_scalars (EquivariantReconstructionLayer_init C R ini) scalar_invariants)
       (\<lambda>y. torch_view y R C) = Inr coeff \<and>
     shape coeff = [B, R, C] \<and>
     EquivariantReconstructionLayer_forward (EquivariantReconstructionLayer_init C R ini)
       compressed_vectors = Inr out \<and>
     shape out = [B, R, 3, 3] \<and>
     (\<forall>b<B. \<forall>r<R. \<forall>i<3. \<forall>j<3.
        entry out [b, r, i, j]
          = (\<Sum>c<C. entry coeff [b, r, c]
                      * (entry compressed_vectors [b, c, i] * entry compressed_vectors [b, c, j])) \<and>
        entry out [b, r, i, j] = entry out [b, r, j, i] \<and>
        (\<forall>z<C. (\<forall>k<3. entry compressed_vectors [b, z, k] = 0) \<longrightarrow>
           entry coeff [b, r, z]
             * (entry compressed_vectors [b, z, i] * entry compressed_vectors [b, z, j]) = 0 \<and>
           entry out [b, r, i, j]
             = (\<Sum>c\<in>{..<C} - {z}. entry coeff [b, r, c]
                      * (entry compressed_vectors [b, c, i] * entry compressed_vectors [b, c, j]))))"
proof -
  let ?self = "EquivariantReconstructionLayer_init C R ini"
  let ?cv = compressed_vectors
  have cfg: "reconstructed_channels ?self = R" "compressed_channels ?self = C"
    by (simp_all add: EquivariantReconstructionLayer_init_def)
  from torch_norm_last [of ?cv] assms(1)
  obtain n where n: "torch_norm ?cv (-1) False = Inr n" and sn: "shape n = [B] @ [C]"
    by auto
  from fc_scalars_ok [OF sn, of R ini]
  obtain y where y: "fc_scalars ?self n = Inr y" and sy: "shape y = [B, R * C]"
    by auto
  from torch_view_ok [OF sy] assms(2,3)
  obtain w where w: "torch_view y R C = Inr w" and sw: "shape w = [B, R, C]"
    by auto
  define t where "t = Tensor [B, C, 3, 3]
     (\<lambda>i. entry ?cv [bix B (i ! 0), bix C (i ! 1), i ! 2]
          * entry ?cv [bix B (i ! 0), bix C (i ! 1), i ! 3])"
  have t: "einsum_bci_bcj_bcij ?cv ?cv = Inr t"
    using assms(1) by (simp add: einsum_bci_bcj_bcij_def t_def)
  define out where "out = Tensor [B, R, 3, 3]
     (\<lambda>i. \<Sum>k<C. entry w [bix B (i ! 0), i ! 1, bix C k]
                  * entry t [bix B (i ! 0), bix C k, i ! 2, i ! 3])"
  have o: "einsum_brc_bcij_brij w t = Inr out"
    using sw by (simp add: einsum_brc_bcij_brij_def t_def out_def)
  have f: "EquivariantReconstructionLayer_forward ?self ?cv = Inr out"
    using n y w t o by (simp add: EquivariantReconstructionLayer_forward_def cfg)
  have c: "ebind (fc_scalars ?self n) (\<lambda>y. torch_view y R C) = Inr w"
    using y w by simp
  have v: "entry out [b, r, i, j]
      = (\<Sum>c<C. entry w [b, r, c] * (entry ?cv [b, c, i] * entry ?cv [b, c, j]))"
    if "b < B" for b r i j
  proof -
    have "entry out [b, r, i, j]
      = (\<Sum>k<C. entry w [b, r, bix C k]
              * (entry ?cv [b, bix C (bix C k), i] * entry ?cv [b, bix C (bix C k), j]))"
      using that by (simp add: out_def t_def bix_less)
    also have "\<dots> = (\<Sum>c<C. entry w [b, r, c] * (entry ?cv [b, c, i] * entry ?cv [b, c, j]))"
      by (rule sum.cong) (simp_all add: bix_less)
    finally show ?thesis .
  qed
  have sym: "entry out [b, r, i, j] = entry out [b, r, j, i]" if "b < B" for b r i j
    using that by (simp add: v mult.commute)
  have zero: "entry w [b, r, z] * (entry ?cv [b, z, i] * entry ?cv [b, z, j]) = 0
       \<and> entry out [b, r, i, j]
           = (\<Sum>c\<in>{..<C} - {z}. entry w [b, r, c] * (entry ?cv [b, c, i] * entry ?cv [b, c, j]))"
    if "b < B" "z < C" "i < 3" "\<forall>k<3. entry ?cv [b, z, k] = 0" for b r i j z
  proof -
    have z0: "entry w [b, r, z] * (entry ?cv [b, z, i] * entry ?cv [b, z, j]) = 0"
      using that by simp
    have "(\<Sum>c<C. entry w [b, r, c] * (entry ?cv [b, c, i] * entry ?cv [b, c, j]))
        = (\<Sum>c\<in>{..<C} - {z}. entry w [b, r, c] * (entry ?cv [b, c, i] * entry ?cv [b, c, j]))"
      using z0 that(2) by (subst sum.remove [of "{..<C}" z]) simp_all
    with z0 v [OF that(1)] show ?thesis by simp
  qed
  have "shape out = [B, R, 3, 3]" by (simp add: out_def)
  with n c sw f v sym zero show ?thesis by blast
qed


theorem reconstruction_forward_outer_products_witness:
  "\<exists>scalar_invariants coeff out.
     torch_norm (ones [1, 1, 3]) (-1) False = Inr scalar_invariants \<and>
     ebind (fc_scalars (EquivariantReconstructionLayer_init 1 1 zero_init) scalar_invariants)
       (\<lambda>y. torch_view y 1 1) = Inr coeff \<and>
     shape coeff = [1, 1, 1] \<and>
     EquivariantReconstructionLayer_forward (EquivariantReconstructionLayer_init 1 1 zero_init)
       (ones [1, 1, 3]) = Inr out \<and>
     shape out = [1, 1, 3, 3] \<and>
     (\<forall>b<1. \<forall>r<1. \<forall>i<3. \<forall>j<3.
        entry out [b, r, i, j]
          = (\<Sum>c<1. entry coeff [b, r, c]
                      * (entry (ones [1, 1, 3]) [b, c, i] * entry (ones [1, 1, 3]) [b, c, j])) \<and>
        entry out [b, r, i, j] = entry out [b, r, j, i] \<and>
        (\<forall>z<1. (\<forall>k<3. entry (ones [1, 1, 3]) [b, z, k] = 0) \<longrightarrow>
           entry coeff [b, r, z]
             * (entry (ones [1, 1, 3]) [b, z, i] * entry (ones [1, 1, 3]) [b, z, j]) = 0 \<and>
           entry out [b, r, i, j]
             = (\<Sum>c\<in>{..<1} - {z}. entry coeff [b, r, c]
                      * (entry (ones [1, 1, 3]) [b, c, i] * entry (ones [1, 1, 3]) [b, c, j]))))"
  by (rule reconstruction_forward_outer_products) (simp_all add: ones_def)

text \<open>C7 as stated fails for a layer without reconstructed channels: the network's output
  has no entries, the size standing for \<open>-1\<close> in \<^verbatim>\<open>view(-1, R, C)\<close> is undetermined, and
  line 58 raises instead of returning a tensor of shape \<open>[1, 0, 3, 3]\<close>.\<close>

theorem reconstruction_no_channels_counterexample:
  "EquivariantReconstructionLayer_forward (EquivariantReconstructionLayer_init 1 0 zero_init)
     (ones [1, 1, 3]) = Inl (RuntimeError, [58])"
proof -
  let ?self = "EquivariantReconstructionLayer_init 1 0 zero_init"
  from torch_norm_last [of "ones [1, 1, 3]"]
  obtain n where n: "torch_norm (ones [1, 1, 3]) (-1) False = Inr n" and sn: "shape n = [1] @ [1]"
    by (auto simp: ones_def)
  from fc_scalars_ok [OF sn, of 0 zero_init]
  obtain y where y: "fc_scalars ?self n = Inr y" by auto
  have "torch_view y 0 1 = raise RuntimeError" by (simp add: torch_view_def)
  with n y show ?thesis
    by (simp add: EquivariantReconstructionLayer_forward_def EquivariantReconstructionLayer_init_def)
qed







lemma line_cases:
  obtains (err) k tb where "r = Inl (k, tb)" "line n r = Inl (k, n # tb)"
        | (val) x where "r = Inr x" "line n r = Inr x"
  by (cases r) (auto simp: line_def)

lemma pure_line_step:
  assumes "\<And>k tb. Q k (n # tb)"
    and "\<And>x. \<exists>k tb out'. f x out = (Inl (k, tb), out') \<and> Q k tb"
  shows "\<exists>k tb out'. iobind (pure (line n r)) f out = (Inl (k, tb), out') \<and> Q k tb"
proof (cases rule: line_cases [where r = r and n = n])
  case (err k tb)
  then show ?thesis using assms(1) by simp
next
  case (val x)
  then show ?thesis using assms(2) by simp
qed

lemma called_at_step:
  assumes "\<And>k tb. Q k (n # tb)"
    and "\<And>x out1. \<exists>k tb out'. f x out1 = (Inl (k, tb), out') \<and> Q k tb"
  shows "\<exists>k tb out'. iobind (called_at n m) f out = (Inl (k, tb), out') \<and> Q k tb"
proof -
  obtain r out1 where m: "m out = (r, out1)" by (cases "m out")
  show ?thesis
  proof (cases rule: line_cases [where r = r and n = n])
    case (err k tb)
    then show ?thesis using assms(1) m by (simp add: iobind_def called_at_def)
  next
    case (val x)
    then show ?thesis using assms(2) [of x out1] m by (simp add: iobind_def called_at_def)
  qed
qed

lemma PaiNNInteraction_forward_raises:
  "\<exists>k tb out'. PaiNNInteraction_forward self q mu Wij dir_ij ii ij n_atoms out
       = (Inl (k, tb), out') \<and> early_or_self_term k tb"
  unfolding PaiNNInteraction_forward_def
  apply (rule pure_line_step, simp add: early_or_self_term_def)
  apply (rule pure_line_step, simp add: early_or_self_term_def)
  apply (rule pure_line_step, simp add: early_or_self_term_def)
  apply (rule pure_line_step, simp add: early_or_self_term_def)
  apply (rule pure_line_step, simp add: early_or_self_term_def)
  apply (rule pure_line_step, simp add: early_or_self_term_def)
  apply (simp only: split_paired_all prod.case)
  apply (rule pure_line_step, simp add: early_or_self_term_def)
  apply (rule called_at_step, simp add: early_or_self_term_def)
  apply (rule pure_line_step, simp add: early_or_self_term_def)
  apply (rule pure_line_step, simp add: early_or_self_term_def)
  apply (simp add: torch_transpose_missing_dims_def early_or_self_term_def)
  done


lemma iobind_called_at_Inl:
  "m out = (Inl (k, tb), out') \<Longrightarrow> iobind (called_at n m) f out = (Inl (k, n # tb), out')"
  by (simp add: iobind_def called_at_def)

lemma iobind_called_at_Inr:
  "m out = (Inr x, out') \<Longrightarrow> iobind (called_at n m) f out = f x out'"
  by (simp add: iobind_def called_at_def)

lemma Dense_forward_ok:
  "shape x = s @ [dense_in D] \<Longrightarrow>
   \<exists>y. Dense_forward D x = Inr y \<and> shape y = s @ [dense_out D]"
  by (simp add: Dense_forward_def)

lemma interatomic_context_net_ok:
  assumes "shape q = s @ [F]"
  shows "\<exists>x. interatomic_context_net (PaiNNInteraction_init F act ini) q = Inr x
              \<and> shape x = s @ [3 * F]"
proof -
  let ?self = "PaiNNInteraction_init F act ini"
  have "shape q = s @ [dense_in (interatomic_context_net_0 ?self)]"
    using assms by (simp add: PaiNNInteraction_init_def Dense_init_def)
  from Dense_forward_ok [OF this]
  obtain h where h: "Dense_forward (interatomic_context_net_0 ?self) q = Inr h"
    and sh: "shape h = s @ [F]"
    by (auto simp: PaiNNInteraction_init_def Dense_init_def)
  have "shape h = s @ [dense_in (interatomic_context_net_1 ?self)]"
    using sh by (simp add: PaiNNInteraction_init_def Dense_init_def)
  from Dense_forward_ok [OF this]
  obtain x where x: "Dense_forward (interatomic_context_net_1 ?self) h = Inr x"
    and sx: "shape x = s @ [3 * F]"
    by (auto simp: PaiNNInteraction_init_def Dense_init_def)
  show ?thesis using h x sx by (simp add: interatomic_context_net_def)
qed

lemma index_rows_ok:
  assumes "shape x = n # s" and "list_all (\<lambda>k. - int n \<le> k \<and> k < int n) idx"
  shows "\<exists>y. index_rows x idx = Inr y \<and> shape y = length idx # s"
  using assms by (simp add: index_rows_def)

lemma index_rows_out_of_range:
  assumes "shape x = n # s" and "list_ex (\<lambda>k. k < - int n \<or> int n \<le> k) idx"
  shows "index_rows x idx = raise IndexError"
proof -
  have "\<not> list_all (\<lambda>k. - int n \<le> k \<and> k < int n) idx"
    using assms(2) unfolding list_all_iff list_ex_iff by fastforce
  then show ?thesis using assms(1) by (simp add: index_rows_def)
qed

lemma valid_index_in_gather_range:
  "list_all (\<lambda>k. 0 \<le> k \<and> k < int n) idx \<Longrightarrow> list_all (\<lambda>k. - int n \<le> k \<and> k < int n) idx"
  by (auto simp: list_all_iff)

lemma scatter_add_out_of_range:
  assumes "shape x = length idx # s" and "list_ex (\<lambda>k. k < 0 \<or> int n \<le> k) idx"
  shows "scatter_add x idx n = raise IndexError"
  using assms by (simp add: scatter_add_def)

lemma broadcast2_ok:
  "broadcast_shapes (shape a) (shape b) = Some s \<Longrightarrow> \<exists>y. broadcast2 f a b = Inr y \<and> shape y = s"
  by (simp add: broadcast2_def)

lemma broadcast2_width_mismatch:
  assumes "shape a = s @ [w]" and "shape b = t @ [v]" and "w \<noteq> v" and "w \<noteq> 1" and "v \<noteq> 1"
  shows "broadcast2 f a b = raise RuntimeError"
  using assms by (simp add: broadcast2_def broadcast_shapes_def bdim_def)


lemma broadcast_rev_same: "broadcast_rev xs xs = Some xs"
  by (induction xs) simp_all

lemma broadcast2_same_shape:
  "shape a = shape b \<Longrightarrow> \<exists>y. broadcast2 f a b = Inr y \<and> shape y = shape a"
  by (simp add: broadcast2_def broadcast_shapes_def broadcast_rev_same)

lemma upt_3: "[0..<3] = [0, 1, 2]"
  by (simp add: upt_rec)

lemma split3_ok:
  assumes "shape x = s @ [3 * F]" and "0 < F"
  shows "\<exists>a b c. ebind (torch_split x F) unpack3 = Inr (a, b, c)
     \<and> shape a = s @ [F] \<and> shape b = s @ [F] \<and> shape c = s @ [F]"
proof -
  have "(3 * F + F - 1) div F = 3"
    using assms(2) by (intro div_nat_eqI) simp_all
  then show ?thesis using assms by (simp add: torch_split_def Let_def upt_3)
qed

lemma scatter_add_ok:
  assumes "shape x = length idx # s" and "list_all (\<lambda>k. 0 \<le> k \<and> k < int n) idx"
  shows "\<exists>y. scatter_add x idx n = Inr y \<and> shape y = n # s"
proof -
  have "\<not> list_ex (\<lambda>k. k < 0 \<or> int n \<le> k) idx"
    using assms(2) by (auto simp: list_all_iff list_ex_iff)
  then show ?thesis using assms(1) by (simp add: scatter_add_def)
qed

lemma compression_forward_wrong_axis:
  assumes "shape vectors = [E, 3, 2 * F]"
  shows "EquivariantCompressionLayer_forward (EquivariantCompressionLayer_init (F * 2) C ini)
           vectors out = (Inl (RuntimeError, [30]), out)"
proof -
  from torch_norm_last [of vectors] assms
  obtain n where n: "torch_norm vectors (-1) False = Inr n" and sn: "shape n = [E, 3]"
    by auto
  have "Linear_forward (fc_scalar_weights_0 (EquivariantCompressionLayer_init (F * 2) C ini)) n
          = raise RuntimeError"
  proof -
    have "F * 2 \<noteq> 3" by presburger
    then show ?thesis
      using sn by (simp add: Linear_forward_def EquivariantCompressionLayer_init_def Linear_init_def)
  qed
  then show ?thesis
    using n by (simp add: EquivariantCompressionLayer_forward_def fc_scalar_weights_def raise_def)
qed

lemma interaction_forward_gathers:
  assumes "shape q = [n_atoms, 1] @ [F]" and "shape mu = n_atoms # smu" and "length ij = length ii"
    and "list_all (\<lambda>k. - int n_atoms \<le> k \<and> k < int n_atoms) ij"
    and "list_all (\<lambda>k. - int n_atoms \<le> k \<and> k < int n_atoms) ii"
  obtains x xj muj mui where
    "interatomic_context_net (PaiNNInteraction_init F act ini) q = Inr x"
    "index_rows x ij = Inr xj" "shape xj = [length ii, 1, 3 * F]"
    "index_rows mu ij = Inr muj" "shape muj = length ii # smu"
    "index_rows mu ii = Inr mui" "shape mui = length ii # smu"
proof -
  from interatomic_context_net_ok [OF assms(1)]
  obtain x where x: "interatomic_context_net (PaiNNInteraction_init F act ini) q = Inr x"
    and sx: "shape x = n_atoms # [1, 3 * F]"
    by auto
  from index_rows_ok [OF sx assms(4)] assms(3)
  obtain xj where xj: "index_rows x ij = Inr xj" "shape xj = [length ii, 1, 3 * F]"
    by auto
  from index_rows_ok [OF assms(2) assms(4)] assms(3)
  obtain muj where muj: "index_rows mu ij = Inr muj" "shape muj = length ii # smu"
    by auto
  from index_rows_ok [OF assms(2) assms(5)]
  obtain mui where mui: "index_rows mu ii = Inr mui" "shape mui = length ii # smu"
    by auto
  from x xj muj mui that show thesis by blast
qed

lemma interaction_forward_bad_idx_j:
  assumes "shape q = [n_atoms, 1] @ [F]"
    and "list_ex (\<lambda>k. k < - int n_atoms \<or> int n_atoms \<le> k) ij"
  shows "PaiNNInteraction_forward (PaiNNInteraction_init F act ini) q mu Wij dir_ij ii ij n_atoms out
           = (Inl (IndexError, [123]), out)"
proof -
  from interatomic_context_net_ok [OF assms(1)]
  obtain x where x: "interatomic_context_net (PaiNNInteraction_init F act ini) q = Inr x"
    and sx: "shape x = n_atoms # [1, 3 * F]"
    by auto
  from index_rows_out_of_range [OF sx assms(2)] x show ?thesis
    unfolding PaiNNInteraction_forward_def by simp
qed

lemma interaction_forward_bad_idx_i:
  assumes "shape q = [n_atoms, 1] @ [F]" and "shape mu = n_atoms # smu"
    and "list_all (\<lambda>k. - int n_atoms \<le> k \<and> k < int n_atoms) ij"
    and "list_ex (\<lambda>k. k < - int n_atoms \<or> int n_atoms \<le> k) ii"
  shows "PaiNNInteraction_forward (PaiNNInteraction_init F act ini) q mu Wij dir_ij ii ij n_atoms out
           = (Inl (IndexError, [125]), out)"
proof -
  from interatomic_context_net_ok [OF assms(1)]
  obtain x where x: "interatomic_context_net (PaiNNInteraction_init F act ini) q = Inr x"
    and sx: "shape x = n_atoms # [1, 3 * F]"
    by auto
  from index_rows_ok [OF sx assms(3)]
  obtain xj where xj: "index_rows x ij = Inr xj" by auto
  from index_rows_ok [OF assms(2) assms(3)]
  obtain muj where muj: "index_rows mu ij = Inr muj" by auto
  from index_rows_out_of_range [OF assms(2) assms(4)] x xj muj show ?thesis
    unfolding PaiNNInteraction_forward_def by simp
qed

lemma interaction_forward_bad_filter_width:
  assumes "0 < F" and "shape q = [n_atoms, 1] @ [F]" and "shape mu = n_atoms # smu"
    and "length ij = length ii"
    and "list_all (\<lambda>k. - int n_atoms \<le> k \<and> k < int n_atoms) ij"
    and "list_all (\<lambda>k. - int n_atoms \<le> k \<and> k < int n_atoms) ii"
    and "shape Wij = sW @ [w]" and "w \<noteq> 3 * F" and "w \<noteq> 1"
  shows "PaiNNInteraction_forward (PaiNNInteraction_init F act ini) q mu Wij dir_ij ii ij n_atoms out
           = (Inl (RuntimeError, [126]), out)"
proof -
  from interaction_forward_gathers [OF assms(2-6), of act ini]
  obtain x xj muj mui where g:
    "interatomic_context_net (PaiNNInteraction_init F act ini) q = Inr x"
    "index_rows x ij = Inr xj" "shape xj = [length ii, 1, 3 * F]"
    "index_rows mu ij = Inr muj" "index_rows mu ii = Inr mui"
    by metis
  have "shape xj = [length ii, 1] @ [3 * F]" using g(3) by simp
  from broadcast2_width_mismatch [OF assms(7) this assms(8,9)] assms(1)
  have "torch_mul Wij xj = raise RuntimeError" by (simp add: torch_mul_def)
  with g show ?thesis unfolding PaiNNInteraction_forward_def by simp
qed

lemma interaction_forward_messages:
  assumes "0 < F" and "shape q = [n_atoms, 1] @ [F]" and "shape mu = n_atoms # smu"
    and "length ij = length ii"
    and "list_all (\<lambda>k. - int n_atoms \<le> k \<and> k < int n_atoms) ij"
    and "list_all (\<lambda>k. - int n_atoms \<le> k \<and> k < int n_atoms) ii"
    and "broadcast_shapes (shape Wij) [length ii, 1, 3 * F] = Some [length ii, 1, 3 * F]"
  obtains x xj muj mui x' dq dmuR dmumu where
    "interatomic_context_net (PaiNNInteraction_init F act ini) q = Inr x"
    "index_rows x ij = Inr xj"
    "index_rows mu ij = Inr muj" "shape muj = length ii # smu"
    "index_rows mu ii = Inr mui" "shape mui = length ii # smu"
    "torch_mul Wij xj = Inr x'"
    "ebind (torch_split x' F) unpack3 = Inr (dq, dmuR, dmumu)"
    "shape dq = [length ii, 1, F]" "shape dmuR = [length ii, 1, F]" "shape dmumu = [length ii, 1, F]"
proof -
  from interaction_forward_gathers [OF assms(2-6), of act ini]
  obtain x xj muj mui where g:
    "interatomic_context_net (PaiNNInteraction_init F act ini) q = Inr x"
    "index_rows x ij = Inr xj" "shape xj = [length ii, 1, 3 * F]"
    "index_rows mu ij = Inr muj" "shape muj = length ii # smu"
    "index_rows mu ii = Inr mui" "shape mui = length ii # smu"
    by metis
  from broadcast2_ok [of Wij xj _ "(*)"] assms(7) g(3)
  obtain x' where x': "torch_mul Wij xj = Inr x'" and sx': "shape x' = [length ii, 1] @ [3 * F]"
    by (auto simp: torch_mul_def)
  from split3_ok [OF sx' assms(1)]
  obtain dq dmuR dmumu where sp: "ebind (torch_split x' F) unpack3 = Inr (dq, dmuR, dmumu)"
    "shape dq = [length ii, 1, F]" "shape dmuR = [length ii, 1, F]" "shape dmumu = [length ii, 1, F]"
    by auto
  from g x' sp that show thesis by blast
qed

lemma interaction_forward_negative_idx_i:
  assumes "0 < F" and "shape q = [n_atoms, 1] @ [F]" and "shape mu = n_atoms # smu"
    and "length ij = length ii"
    and "list_all (\<lambda>k. - int n_atoms \<le> k \<and> k < int n_atoms) ij"
    and "list_all (\<lambda>k. - int n_atoms \<le> k \<and> k < int n_atoms) ii"
    and "broadcast_shapes (shape Wij) [length ii, 1, 3 * F] = Some [length ii, 1, 3 * F]"
    and "list_ex (\<lambda>k. k < 0) ii"
  shows "PaiNNInteraction_forward (PaiNNInteraction_init F act ini) q mu Wij dir_ij ii ij n_atoms out
           = (Inl (IndexError, [129]), out)"
proof -
  let ?self = "PaiNNInteraction_init F act ini"
  from interaction_forward_messages [OF assms(1-7), of act ini]
  obtain x xj muj mui x' dq dmuR dmumu where m:
    "interatomic_context_net ?self q = Inr x"
    "index_rows x ij = Inr xj"
    "index_rows mu ij = Inr muj"
    "index_rows mu ii = Inr mui"
    "torch_mul Wij xj = Inr x'"
    "ebind (torch_split x' F) unpack3 = Inr (dq, dmuR, dmumu)"
    and sdq: "shape dq = length ii # [1, F]"
    by (metis (no_types))
  have "list_ex (\<lambda>k. k < 0 \<or> int n_atoms \<le> k) ii"
    using assms(8) by (auto simp: list_ex_iff)
  from scatter_add_out_of_range [OF sdq this]
  have "scatter_add dq ii n_atoms = raise IndexError" .
  moreover have "n_atom_basis_I ?self = F" by (simp add: PaiNNInteraction_init_def)
  ultimately show ?thesis
    using m unfolding PaiNNInteraction_forward_def by simp
qed

lemma interaction_forward_wrong_axis:
  assumes "0 < F" and "shape q = [n_atoms, 1] @ [F]" and "shape mu = n_atoms # [3, 2 * F]"
    and "length ij = length ii"
    and "list_all (\<lambda>k. - int n_atoms \<le> k \<and> k < int n_atoms) ij"
    and "list_all (\<lambda>k. 0 \<le> k \<and> k < int n_atoms) ii"
    and "broadcast_shapes (shape Wij) [length ii, 1, 3 * F] = Some [length ii, 1, 3 * F]"
  shows "PaiNNInteraction_forward (PaiNNInteraction_init F act ini) q mu Wij dir_ij ii ij n_atoms out
           = (Inl (RuntimeError, [130, 30]), out)"
proof -
  let ?self = "PaiNNInteraction_init F act ini"
  note vi = valid_index_in_gather_range [OF assms(6)]
  from interaction_forward_messages [OF assms(1-5) vi assms(7), of act ini]
  obtain x xj muj mui x' dq dmuR dmumu where m:
    "interatomic_context_net ?self q = Inr x"
    "index_rows x ij = Inr xj"
    "index_rows mu ij = Inr muj"
    "index_rows mu ii = Inr mui"
    "torch_mul Wij xj = Inr x'"
    "ebind (torch_split x' F) unpack3 = Inr (dq, dmuR, dmumu)"
    and smuj: "shape muj = [length ii, 3, 2 * F]"
    and sdq: "shape dq = length ii # [1, F]"
    by (metis (no_types))
  from scatter_add_ok [OF sdq assms(6)]
  obtain dq' where dq': "scatter_add dq ii n_atoms = Inr dq'" by auto
  have c: "EquivariantCompressionLayer_forward (compression_layer ?self) muj out
             = (Inl (RuntimeError, [30]), out)"
    using compression_forward_wrong_axis [OF smuj] by (simp add: PaiNNInteraction_init_def)
  have n: "n_atom_basis_I ?self = F" by (simp add: PaiNNInteraction_init_def)
  show ?thesis
    unfolding PaiNNInteraction_forward_def
    using m dq' n by (simp add: iobind_called_at_Inl
      [where m = "EquivariantCompressionLayer_forward (compression_layer ?self) muj", OF c])
qed

lemma PaiNNInteraction_forward_documented_shapes:
  assumes "0 < F" and "documented_shapes F q mu Wij dir_ij ii ij n_atoms"
  shows "PaiNNInteraction_forward (PaiNNInteraction_init F act ini) q mu Wij dir_ij ii ij n_atoms out
           = (Inl (RuntimeError, [130, 30]), out)"
proof -
  from assms(2) have "shape q = [n_atoms, 1] @ [F]" "shape mu = n_atoms # [3, 2 * F]"
    "length ij = length ii"
    "list_all (\<lambda>k. - int n_atoms \<le> k \<and> k < int n_atoms) ij"
    "list_all (\<lambda>k. 0 \<le> k \<and> k < int n_atoms) ii"
    "broadcast_shapes (shape Wij) [length ii, 1, 3 * F] = Some [length ii, 1, 3 * F]"
    by (simp_all add: documented_shapes_def valid_index_in_gather_range
          broadcast_shapes_def broadcast_rev_same)
  from interaction_forward_wrong_axis [OF assms(1) this] show ?thesis .
qed

text \<open>C4, as amended. For every input, \<^verbatim>\<open>PaiNNInteraction.forward\<close> raises instead of
  returning a triple: either the self-term on line 136 raises its \<^verbatim>\<open>TypeError\<close>, or a
  statement before it (lines 122 to 132) has already raised. For inputs with the documented
  shapes (with \<open>F \<ge> 1\<close>) it is the earlier case: the call of the compression layer on line
  130 raises on line 30, because the norms over the last axis of \<open>muj\<close> have width 3 and
  the layer's first linear map expects \<open>2F\<close>.\<close>

theorem interaction_forward_never_returns:
  "(\<exists>k tb out'.
      PaiNNInteraction_forward (PaiNNInteraction_init F act ini) q mu Wij dir_ij ii ij n_atoms out
        = (Inl (k, tb), out') \<and> early_or_self_term k tb) \<and>
   (0 < F \<and> documented_shapes F q mu Wij dir_ij ii ij n_atoms \<longrightarrow>
      PaiNNInteraction_forward (PaiNNInteraction_init F act ini) q mu Wij dir_ij ii ij n_atoms out
        = (Inl (RuntimeError, [130, 30]), out))"
proof (intro conjI impI)
  show "\<exists>k tb out'.
      PaiNNInteraction_forward (PaiNNInteraction_init F act ini) q mu Wij dir_ij ii ij n_atoms out
        = (Inl (k, tb), out') \<and> early_or_self_term k tb"
    by (rule PaiNNInteraction_forward_raises)
next
  assume "0 < F \<and> documented_shapes F q mu Wij dir_ij ii ij n_atoms"
  then show "PaiNNInteraction_forward (PaiNNInteraction_init F act ini) q mu Wij dir_ij ii ij
      n_atoms out = (Inl (RuntimeError, [130, 30]), out)"
    by (simp add: PaiNNInteraction_forward_documented_shapes)
qed

theorem interaction_forward_never_returns_witness:
  "0 < (4 :: nat) \<and>
   documented_shapes 4 (ones [2, 1, 4]) (ones [2, 3, 8]) (ones [2, 1, 12]) (ones [2, 3])
     [0, 1] [1, 0] 2 \<and>
   PaiNNInteraction_forward (PaiNNInteraction_init 4 None zero_init)
     (ones [2, 1, 4]) (ones [2, 3, 8]) (ones [2, 1, 12]) (ones [2, 3]) [0, 1] [1, 0] 2 []
     = (Inl (RuntimeError, [130, 30]), [])"
proof -
  have d: "documented_shapes 4 (ones [2, 1, 4]) (ones [2, 3, 8]) (ones [2, 1, 12]) (ones [2, 3])
     [0, 1] [1, 0] 2"
    by (simp add: documented_shapes_def ones_def)
  with interaction_forward_never_returns [of 4 None zero_init "ones [2, 1, 4]" "ones [2, 3, 8]"
      "ones [2, 1, 12]" "ones [2, 3]" "[0, 1]" "[1, 0]" 2 "[]"]
  show ?thesis by simp
qed

text \<open>C4 as stated fails on an input with the documented shapes (one atom, one edge,
  \<open>F = 1\<close>): the exception is the \<^verbatim>\<open>RuntimeError\<close> of line 30, raised in the call on
  line 130, and line 136 is not reached.\<close>

theorem interaction_forward_fails_before_self_term_counterexample:
  "documented_shapes 1 (ones [1, 1, 1]) (ones [1, 3, 2]) (ones [1, 1, 3]) (ones [1, 3]) [0] [0] 1 \<and>
   PaiNNInteraction_forward (PaiNNInteraction_init 1 None zero_init)
     (ones [1, 1, 1]) (ones [1, 3, 2]) (ones [1, 1, 3]) (ones [1, 3]) [0] [0] 1 []
     = (Inl (RuntimeError, [130, 30]), []) \<and>
   (RuntimeError, [130, 30]) \<noteq> (TypeError, [136 :: nat])"
proof -
  have d: "documented_shapes 1 (ones [1, 1, 1]) (ones [1, 3, 2]) (ones [1, 1, 3]) (ones [1, 3])
     [0] [0] 1"
    by (simp add: documented_shapes_def ones_def)
  from PaiNNInteraction_forward_documented_shapes [OF _ d, of None zero_init "[]"] d
  show ?thesis by simp
qed

text \<open>C9, as amended. Let \<open>q\<close> and \<open>mu\<close> have the documented shapes for \<open>n\<close> atoms and
  \<open>F \<ge> 1\<close>, and let there be as many source as target indices.
  \<^item> An entry of \<open>idx_j\<close> below \<open>-n\<close> or from \<open>n\<close> on raises an \<^verbatim>\<open>IndexError\<close> at the
    gather on line 123.
  \<^item> Otherwise an entry of \<open>idx_i\<close> below \<open>-n\<close> or from \<open>n\<close> on raises an
    \<^verbatim>\<open>IndexError\<close> at the gather on line 125.
  \<^item> Otherwise a filter whose width is neither \<open>3F\<close> nor 1 raises a \<^verbatim>\<open>RuntimeError\<close>
    at the product on line 126.
  \<^item> Otherwise, with a filter of shape \<open>[edges, 1, 3F]\<close>, a negative entry of \<open>idx_i\<close>
    raises an \<^verbatim>\<open>IndexError\<close> at the aggregation on line 129.
  \<^item> With indices in \<open>[0, n)\<close> and a filter of shape \<open>[edges, 1, 3F]\<close> none of these
    is raised: the statements up to line 129 succeed, and the exception comes from line 130.
  In each case nothing is printed and nothing is returned.\<close>

theorem interaction_forward_index_and_filter_errors:
  assumes "0 < F" and "shape q = [n, 1, F]" and "shape mu = [n, 3, 2 * F]"
    and "length ij = length ii"
  shows
   "(list_ex (\<lambda>k. k < - int n \<or> int n \<le> k) ij \<longrightarrow>
       PaiNNInteraction_forward (PaiNNInteraction_init F act ini) q mu Wij dir_ij ii ij n out
         = (Inl (IndexError, [123]), out)) \<and>
    (list_all (\<lambda>k. - int n \<le> k \<and> k < int n) ij \<and> list_ex (\<lambda>k. k < - int n \<or> int n \<le> k) ii \<longrightarrow>
       PaiNNInteraction_forward (PaiNNInteraction_init F act ini) q mu Wij dir_ij ii ij n out
         = (Inl (IndexError, [125]), out)) \<and>
    (list_all (\<lambda>k. - int n \<le> k \<and> k < int n) ij \<and> list_all (\<lambda>k. - int n \<le> k \<and> k < int n) ii \<and>
     shape Wij = sW @ [w] \<and> w \<noteq> 3 * F \<and> w \<noteq> 1 \<longrightarrow>
       PaiNNInteraction_forward (PaiNNInteraction_init F act ini) q mu Wij dir_ij ii ij n out
         = (Inl (RuntimeError, [126]), out)) \<and>
    (list_all (\<lambda>k. - int n \<le> k \<and> k < int n) ij \<and> list_all (\<lambda>k. - int n \<le> k \<and> k < int n) ii \<and>
     shape Wij = [length ii, 1, 3 * F] \<and> list_ex (\<lambda>k. k < 0) ii \<longrightarrow>
       PaiNNInteraction_forward (PaiNNInteraction_init F act ini) q mu Wij dir_ij ii ij n out
         = (Inl (IndexError, [129]), out)) \<and>
    (list_all (\<lambda>k. 0 \<le> k \<and> k < int n) ij \<and> list_all (\<lambda>k. 0 \<le> k \<and> k < int n) ii \<and>
     shape Wij = [length ii, 1, 3 * F] \<longrightarrow>
       PaiNNInteraction_forward (PaiNNInteraction_init F act ini) q mu Wij dir_ij ii ij n out
         = (Inl (RuntimeError, [130, 30]), out))"
proof -
  have sq: "shape q = [n, 1] @ [F]" and smu: "shape mu = n # [3, 2 * F]"
    using assms(2,3) by simp_all
  have same: "broadcast_shapes [length ii, 1, 3 * F] [length ii, 1, 3 * F] = Some [length ii, 1, 3 * F]"
    by (simp add: broadcast_shapes_def broadcast_rev_same)
  show ?thesis
  proof (intro conjI impI; (elim conjE)?)
    assume "list_ex (\<lambda>k. k < - int n \<or> int n \<le> k) ij"
    then show "PaiNNInteraction_forward (PaiNNInteraction_init F act ini) q mu Wij dir_ij ii ij n out
         = (Inl (IndexError, [123]), out)"
      by (rule interaction_forward_bad_idx_j [OF sq])
  next
    assume "list_all (\<lambda>k. - int n \<le> k \<and> k < int n) ij"
      and "list_ex (\<lambda>k. k < - int n \<or> int n \<le> k) ii"
    then show "PaiNNInteraction_forward (PaiNNInteraction_init F act ini) q mu Wij dir_ij ii ij n out
         = (Inl (IndexError, [125]), out)"
      by (rule interaction_forward_bad_idx_i [OF sq smu])
  next
    assume "list_all (\<lambda>k. - int n \<le> k \<and> k < int n) ij"
      and "list_all (\<lambda>k. - int n \<le> k \<and> k < int n) ii"
      and "shape Wij = sW @ [w]" and "w \<noteq> 3 * F" and "w \<noteq> 1"
    then show "PaiNNInteraction_forward (PaiNNInteraction_init F act ini) q mu Wij dir_ij ii ij n out
         = (Inl (RuntimeError, [126]), out)"
      by (rule interaction_forward_bad_filter_width [OF assms(1) sq smu assms(4)])
  next
    assume a: "list_all (\<lambda>k. - int n \<le> k \<and> k < int n) ij"
      "list_all (\<lambda>k. - int n \<le> k \<and> k < int n) ii"
      and w: "shape Wij = [length ii, 1, 3 * F]" and neg: "list_ex (\<lambda>k. k < 0) ii"
    from same w have "broadcast_shapes (shape Wij) [length ii, 1, 3 * F] = Some [length ii, 1, 3 * F]"
      by simp
    from interaction_forward_negative_idx_i [OF assms(1) sq smu assms(4) a this neg]
    show "PaiNNInteraction_forward (PaiNNInteraction_init F act ini) q mu Wij dir_ij ii ij n out
         = (Inl (IndexError, [129]), out)" .
  next
    assume a: "list_all (\<lambda>k. 0 \<le> k \<and> k < int n) ij" "list_all (\<lambda>k. 0 \<le> k \<and> k < int n) ii"
      and w: "shape Wij = [length ii, 1, 3 * F]"
    from same w have "broadcast_shapes (shape Wij) [length ii, 1, 3 * F] = Some [length ii, 1, 3 * F]"
      by simp
    from interaction_forward_wrong_axis [OF assms(1) sq smu assms(4)
        valid_index_in_gather_range [OF a(1)] a(2) this]
    show "PaiNNInteraction_forward (PaiNNInteraction_init F act ini) q mu Wij dir_ij ii ij n out
         = (Inl (RuntimeError, [130, 30]), out)" .
  qed
qed


theorem interaction_forward_index_and_filter_errors_witness:
  "PaiNNInteraction_forward (PaiNNInteraction_init 1 None zero_init)
     (ones [1, 1, 1]) (ones [1, 3, 2]) (ones [1, 1, 3]) (ones [1, 3]) [0] [1] 1 []
     = (Inl (IndexError, [123]), []) \<and>
   PaiNNInteraction_forward (PaiNNInteraction_init 1 None zero_init)
     (ones [1, 1, 1]) (ones [1, 3, 2]) (ones [1, 1, 3]) (ones [1, 3]) [1] [0] 1 []
     = (Inl (IndexError, [125]), []) \<and>
   PaiNNInteraction_forward (PaiNNInteraction_init 1 None zero_init)
     (ones [1, 1, 1]) (ones [1, 3, 2]) (ones [1, 1, 2]) (ones [1, 3]) [0] [0] 1 []
     = (Inl (RuntimeError, [126]), []) \<and>
   PaiNNInteraction_forward (PaiNNInteraction_init 1 None zero_init)
     (ones [1, 1, 1]) (ones [1, 3, 2]) (ones [1, 1, 3]) (ones [1, 3]) [-1] [0] 1 []
     = (Inl (IndexError, [129]), []) \<and>
   PaiNNInteraction_forward (PaiNNInteraction_init 1 None zero_init)
     (ones [1, 1, 1]) (ones [1, 3, 2]) (ones [1, 1, 3]) (ones [1, 3]) [0] [0] 1 []
     = (Inl (RuntimeError, [130, 30]), [])"
proof -
  note t = interaction_forward_index_and_filter_errors
    [where F = 1 and n = 1 and q = "ones [1, 1, 1]" and mu = "ones [1, 3, 2]"
       and dir_ij = "ones [1, 3]" and act = None and ini = zero_init and out = "[]"]
  have a: "PaiNNInteraction_forward (PaiNNInteraction_init 1 None zero_init)
     (ones [1, 1, 1]) (ones [1, 3, 2]) (ones [1, 1, 3]) (ones [1, 3]) [0] [1] 1 []
     = (Inl (IndexError, [123]), [])"
    using t [where ii = "[0]" and ij = "[1]" and Wij = "ones [1, 1, 3]"]
    by (simp add: ones_def)
  have b: "PaiNNInteraction_forward (PaiNNInteraction_init 1 None zero_init)
     (ones [1, 1, 1]) (ones [1, 3, 2]) (ones [1, 1, 3]) (ones [1, 3]) [1] [0] 1 []
     = (Inl (IndexError, [125]), [])"
    using t [where ii = "[1]" and ij = "[0]" and Wij = "ones [1, 1, 3]"]
    by (simp add: ones_def)
  have c: "PaiNNInteraction_forward (PaiNNInteraction_init 1 None zero_init)
     (ones [1, 1, 1]) (ones [1, 3, 2]) (ones [1, 1, 2]) (ones [1, 3]) [0] [0] 1 []
     = (Inl (RuntimeError, [126]), [])"
    using t [where ii = "[0]" and ij = "[0]" and Wij = "ones [1, 1, 2]" and sW = "[1, 1]" and w = 2]
    by (simp add: ones_def)
  have d: "PaiNNInteraction_forward (PaiNNInteraction_init 1 None zero_init)
     (ones [1, 1, 1]) (ones [1, 3, 2]) (ones [1, 1, 3]) (ones [1, 3]) [-1] [0] 1 []
     = (Inl (IndexError, [129]), [])"
    using t [where ii = "[-1]" and ij = "[0]" and Wij = "ones [1, 1, 3]"]
    by (simp add: ones_def)
  have e: "PaiNNInteraction_forward (PaiNNInteraction_init 1 None zero_init)
     (ones [1, 1, 1]) (ones [1, 3, 2]) (ones [1, 1, 3]) (ones [1, 3]) [0] [0] 1 []
     = (Inl (RuntimeError, [130, 30]), [])"
    using t [where ii = "[0]" and ij = "[0]" and Wij = "ones [1, 1, 3]"]
    by (simp add: ones_def)
  from a b c d e show ?thesis by blast
qed

text \<open>C9 as stated fails twice. The source index \<open>-1\<close> lies outside \<open>[0, 1)\<close>, and a filter
  of width 1 does not have width \<open>3F = 3\<close>; in both cases no exception is raised at the
  gather or at the product, and the forward pass goes on to line 130 as it does for valid
  inputs: the index counts from the end, and the filter is broadcast.\<close>

theorem interaction_forward_accepts_negative_index_counterexample:
  "list_ex (\<lambda>k. k < 0 \<or> int 1 \<le> k) [-1] \<and>
   PaiNNInteraction_forward (PaiNNInteraction_init 1 None zero_init)
     (ones [1, 1, 1]) (ones [1, 3, 2]) (ones [1, 1, 3]) (ones [1, 3]) [0] [-1] 1 []
     = (Inl (RuntimeError, [130, 30]), []) \<and>
   last (shape (ones [1, 1, 1])) \<noteq> 3 * 1 \<and>
   PaiNNInteraction_forward (PaiNNInteraction_init 1 None zero_init)
     (ones [1, 1, 1]) (ones [1, 3, 2]) (ones [1, 1, 1]) (ones [1, 3]) [0] [0] 1 []
     = (Inl (RuntimeError, [130, 30]), [])"
proof -
  have a: "PaiNNInteraction_forward (PaiNNInteraction_init 1 None zero_init)
     (ones [1, 1, 1]) (ones [1, 3, 2]) (ones [1, 1, 3]) (ones [1, 3]) [0] [-1] 1 []
     = (Inl (RuntimeError, [130, 30]), [])"
    by (rule interaction_forward_wrong_axis)
       (simp_all add: ones_def broadcast_shapes_def)
  have b: "PaiNNInteraction_forward (PaiNNInteraction_init 1 None zero_init)
     (ones [1, 1, 1]) (ones [1, 3, 2]) (ones [1, 1, 1]) (ones [1, 3]) [0] [0] 1 []
     = (Inl (RuntimeError, [130, 30]), [])"
    by (rule interaction_forward_wrong_axis)
       (simp_all add: ones_def broadcast_shapes_def bdim_def)
  from a b show ?thesis by (simp add: ones_def)
qed

lemma compression_forward_ok:
  assumes "shape vectors = [B, V, K]"
  shows "\<exists>t. EquivariantCompressionLayer_forward (EquivariantCompressionLayer_init V C ini) vectors out
               = (Inr t, out @ [CHR 0x0A]) \<and> shape t = [B, C, K]"
proof -
  let ?self = "EquivariantCompressionLayer_init V C ini"
  from torch_norm_last [of vectors] assms
  obtain n where n: "torch_norm vectors (-1) False = Inr n" and sn: "shape n = [B] @ [V]"
    by auto
  from fc_scalar_weights_ok [OF sn, of C ini]
  obtain w where w: "fc_scalar_weights ?self n = Inr w" and sw: "shape w = [B, C]"
    by auto
  from assms sw obtain t where t: "einsum_bvc_bl_blc vectors w = Inr t" and st: "shape t = [B, C, K]"
    by (simp add: einsum_bvc_bl_blc_def)
  show ?thesis
    using n w t st by (simp add: EquivariantCompressionLayer_forward_def ioreturn_def)
qed

text \<open>C10: the forward pass writes to standard output. For one atom with one edge to
  itself, \<open>F = 1\<close> and vector features of shape \<open>[1, 2, 3]\<close> (the layout the compression
  layer documents on line 24), and any weights and entries, the call of the compression
  layer on line 130 prints a newline (line 33) before the forward pass raises on line 136.\<close>

theorem interaction_forward_prints:
  "PaiNNInteraction_forward (PaiNNInteraction_init 1 act ini)
     (Tensor [1, 1, 1] qe) (Tensor [1, 2, 3] mue) (Tensor [1, 1, 3] We) (Tensor [1, 3] de)
     [0] [0] 1 out
   = (Inl (TypeError, [136]), out @ [CHR 0x0A])"
proof -
  let ?self = "PaiNNInteraction_init 1 act ini"
  let ?q = "Tensor [1, 1, 1] qe" and ?mu = "Tensor [1, 2, 3] mue"
  let ?Wij = "Tensor [1, 1, 3] We" and ?dir = "Tensor [1, 3] de"
  have "\<exists>x xj muj mui x' dq dmuR dmumu.
    interatomic_context_net ?self ?q = Inr x \<and>
    index_rows x [0] = Inr xj \<and>
    index_rows ?mu [0] = Inr muj \<and> shape muj = [1, 2, 3] \<and>
    index_rows ?mu [0] = Inr mui \<and>
    torch_mul ?Wij xj = Inr x' \<and>
    ebind (torch_split x' 1) unpack3 = Inr (dq, dmuR, dmumu) \<and>
    shape dq = [1, 1, 1] \<and> shape dmuR = [1, 1, 1] \<and> shape dmumu = [1, 1, 1]"
    by (rule interaction_forward_messages
          [where F = 1 and n_atoms = 1 and q = ?q and mu = ?mu and smu = "[2, 3]" and ii = "[0]"
             and ij = "[0]" and Wij = ?Wij and act = act and ini = ini])
       (auto simp: broadcast_shapes_def)
  then obtain x xj muj mui x' dq dmuR dmumu where m:
    "interatomic_context_net ?self ?q = Inr x"
    "index_rows x [0] = Inr xj"
    "index_rows ?mu [0] = Inr muj"
    "torch_mul ?Wij xj = Inr x'"
    "ebind (torch_split x' 1) unpack3 = Inr (dq, dmuR, dmumu)"
    and smuj: "shape muj = [1, 2, 3]"
    and sdq: "shape dq = length [0 :: int] # [1, 1]"
    and sR: "shape dmuR = [1, 1, 1]" and sm: "shape dmumu = [1, 1, 1]"
    by auto
  from scatter_add_ok [OF sdq, of 1]
  obtain dq' where dq': "scatter_add dq [0] 1 = Inr dq'" by auto
  from compression_forward_ok [OF smuj, of 1 "\<lambda>k. ini (2 + k)" out]
  obtain cv where cv: "EquivariantCompressionLayer_forward (compression_layer ?self) muj out
      = (Inr cv, out @ [CHR 0x0A])" and scv: "shape cv = [1, 1, 3]"
    by (auto simp: PaiNNInteraction_init_def)
  from broadcast2_ok [of dmuR "unsqueeze_last ?dir" "[1, 3, 1]" "(*)"] sR
  obtain a where a: "torch_mul dmuR (unsqueeze_last ?dir) = Inr a" and sa: "shape a = [1, 3, 1]"
    by (auto simp: torch_mul_def unsqueeze_last_def broadcast_shapes_def bdim_def)
  from broadcast2_ok [of dmumu cv "[1, 1, 3]" "(*)"] sm scv
  obtain b where b: "torch_mul dmumu cv = Inr b" and sb: "shape b = [1, 1, 3]"
    by (auto simp: torch_mul_def broadcast_shapes_def bdim_def)
  from broadcast2_ok [of a b "[1, 3, 3]" "(+)"] sa sb
  obtain dmu where dmu: "torch_add a b = Inr dmu" and sdmu: "shape dmu = length [0 :: int] # [3, 3]"
    by (auto simp: torch_add_def broadcast_shapes_def bdim_def)
  from scatter_add_ok [OF sdmu, of 1]
  obtain dmu' where dmu': "scatter_add dmu [0] 1 = Inr dmu'" by auto
  have n: "n_atom_basis_I ?self = 1" by (simp add: PaiNNInteraction_init_def)
  show ?thesis
    unfolding PaiNNInteraction_forward_def
    using m dq' a b dmu dmu' n
    by (simp del: One_nat_def add: torch_transpose_missing_dims_def iobind_called_at_Inr
      [where m = "EquivariantCompressionLayer_forward (compression_layer ?self) muj", OF cv])
qed

text \<open>C2: no input makes \<^verbatim>\<open>PaiNNInteraction.forward\<close> return updated features, so there is
  no returned \<open>mu'\<close> or \<open>q'\<close> for the stated equations to hold of.\<close>

theorem interaction_forward_returns_no_features:
  "\<nexists>q' mu' dtm out'.
     PaiNNInteraction_forward self q mu Wij dir_ij ii ij n_atoms out = (Inr (q', mu', dtm), out')"
proof -
  from PaiNNInteraction_forward_raises [of self q mu Wij dir_ij ii ij n_atoms out]
  obtain k tb out1 where
    "PaiNNInteraction_forward self q mu Wij dir_ij ii ij n_atoms out = (Inl (k, tb), out1)"
    by blast
  then show ?thesis by simp
qed

lemma iobind_raises:
  assumes "\<And>x out1. \<exists>e out'. f x out1 = (Inl e, out')"
  shows "\<exists>e out'. iobind m f out = (Inl e, out')"
proof -
  obtain r out1 where m: "m out = (r, out1)" by (cases "m out")
  show ?thesis
  proof (cases r)
    case (Inl e)
    with m show ?thesis by (simp add: iobind_def)
  next
    case (Inr x)
    with m assms [of x out1] show ?thesis by (simp add: iobind_def)
  qed
qed

lemma interaction_loop_raises:
  "\<exists>e out'. interaction_loop ((I, M) # rest) i filter_list dir_ij ii ij n_atoms q mu out
              = (Inl e, out')"
proof -
  have "\<exists>e out'. iobind (called_at 326 (PaiNNInteraction_forward I q mu Wij dir_ij ii ij n_atoms)) f out1
                  = (Inl e, out')" for Wij out1 and f :: "tensor \<times> tensor \<times> tensor \<Rightarrow> (tensor \<times> tensor) io"
  proof -
    from PaiNNInteraction_forward_raises [of I q mu Wij dir_ij ii ij n_atoms out1]
    obtain k tb out2 where
      "PaiNNInteraction_forward I q mu Wij dir_ij ii ij n_atoms out1 = (Inl (k, tb), out2)"
      by blast
    then show ?thesis by (simp add: iobind_def called_at_def)
  qed
  then show ?thesis
    unfolding interaction_loop.simps by (rule iobind_raises)
qed

lemma replicate_module_nonempty:
  "0 < n \<Longrightarrow> \<exists>x xs. replicate_module module_factory n share = x # xs"
  by (cases n) (auto simp: replicate_module_def upt_rec)

text \<open>C1: the orchestrator's forward pass produces no representations to compare. With at
  least one interaction block it raises on every input, for every choice of weights and
  collaborators, because the first call of \<^verbatim>\<open>PaiNNInteraction.forward\<close> (line 326) never
  returns.\<close>

theorem PaiNN_forward_never_returns:
  assumes "0 < N"
  shows "\<exists>e out'.
    PaiNN_forward (PaiNN_init F N radial_basis_arg n_rbf cutoff_fn_arg activation
        shared_interactions shared_filters eps nuclear_embedding electronic_embeddings_arg
        ini ini_I ini_M) inp out
      = (Inl e, out')"
proof -
  let ?self = "PaiNN_init F N radial_basis_arg n_rbf cutoff_fn_arg activation
        shared_interactions shared_filters eps nuclear_embedding electronic_embeddings_arg
        ini ini_I ini_M"
  from replicate_module_nonempty [OF assms]
  obtain I Is where I: "interactions ?self = I # Is"
    unfolding PaiNN_init_def by fastforce
  from replicate_module_nonempty [OF assms]
  obtain M Ms where M: "mixing ?self = M # Ms"
    unfolding PaiNN_init_def by fastforce
  have loop: "\<exists>e out'. iobind (interaction_loop (zip (interactions ?self) (mixing ?self)) 0
                 filter_list dir_ij ii ij n_atoms q mu) f out1 = (Inl e, out')"
    for filter_list dir_ij ii ij n_atoms q mu out1 and f :: "tensor \<times> tensor \<Rightarrow> inputs io"
  proof -
    from interaction_loop_raises [of I M "zip Is Ms" 0 filter_list dir_ij ii ij n_atoms q mu out1]
    obtain e out2 where
      "interaction_loop (zip (interactions ?self) (mixing ?self)) 0 filter_list dir_ij ii ij
         n_atoms q mu out1 = (Inl e, out2)"
      unfolding I M by auto
    then show ?thesis by (simp add: iobind_def)
  qed
  show ?thesis
    unfolding PaiNN_forward_def Let_def
    apply (rule iobind_raises)
    apply (rule iobind_raises)
    apply (rule iobind_raises)
    apply (rule iobind_raises)
    apply (rule iobind_raises)
    apply (rule iobind_raises)
    apply (rule iobind_raises)
    apply (rule iobind_raises)
    apply (rule iobind_raises)
    apply (rule iobind_raises)
    apply (rule loop)
    done
qed


theorem PaiNN_forward_never_returns_witness:
  "0 < (1 :: nat) \<and>
   (\<exists>e out'.
      PaiNN_forward (PaiNN_init 8 1 Inr 20 Inr None False False (1 / 10 ^ 8) None None
          zero_init (\<lambda>k. zero_init) (\<lambda>k. zero_init)) example_inputs []
        = (Inl e, out'))"
  using PaiNN_forward_never_returns [of 1 8 Inr 20 Inr None False False "1 / 10 ^ 8" None None
      zero_init "\<lambda>k. zero_init" "\<lambda>k. zero_init" example_inputs "[]"]
  by simp

lemma upt_2: "[0..<2] = [0, 1]"
  by (simp add: upt_rec)

lemma split2_ok:
  assumes "shape x = s @ [2 * F]" and "0 < F"
  shows "\<exists>a b. ebind (torch_split x F) unpack2 = Inr (a, b)
     \<and> shape a = s @ [F] \<and> shape b = s @ [F]"
proof -
  have "(2 * F + F - 1) div F = 2"
    using assms(2) by (intro div_nat_eqI) simp_all
  then show ?thesis using assms by (simp add: torch_split_def Let_def upt_2)
qed

lemma torch_sum_middle:
  assumes "shape x = [a, b, c]" and "d = -2 \<or> d = 1"
  shows "\<exists>y. torch_sum x d True = Inr y \<and> shape y = [a, 1, c]"
  using assms by (auto simp: torch_sum_def wrap_dim_def reduce_sum_def)

lemma torch_cat_ok:
  assumes "shape a = s @ [u]" and "shape b = s @ [v]" and "s \<noteq> []"
  shows "\<exists>y. torch_cat a b = Inr y \<and> shape y = s @ [u + v]"
proof -
  from assms(3) obtain d ds where "s = d # ds" by (cases s) auto
  then show ?thesis using assms(1,2) by (simp add: torch_cat_def)
qed

lemma intraatomic_context_net_ok:
  assumes "shape x = s @ [2 * F]"
  shows "\<exists>y. intraatomic_context_net (PaiNNMixing_init F act eps ini) x = Inr y
              \<and> shape y = s @ [3 * F]"
proof -
  let ?self = "PaiNNMixing_init F act eps ini"
  have "shape x = s @ [dense_in (intraatomic_context_net_0 ?self)]"
    using assms by (simp add: PaiNNMixing_init_def Dense_init_def)
  from Dense_forward_ok [OF this]
  obtain h where h: "Dense_forward (intraatomic_context_net_0 ?self) x = Inr h"
    and sh: "shape h = s @ [F]"
    by (auto simp: PaiNNMixing_init_def Dense_init_def)
  have "shape h = s @ [dense_in (intraatomic_context_net_1 ?self)]"
    using sh by (simp add: PaiNNMixing_init_def Dense_init_def)
  from Dense_forward_ok [OF this]
  obtain y where y: "Dense_forward (intraatomic_context_net_1 ?self) h = Inr y"
    and sy: "shape y = s @ [3 * F]"
    by (auto simp: PaiNNMixing_init_def Dense_init_def)
  show ?thesis using h y sy by (simp add: intraatomic_context_net_def)
qed

lemma mixing_forward_wrong_vector_width:
  assumes "0 < F" and "shape mu = s @ [2 * F]"
  shows "PaiNNMixing_forward (PaiNNMixing_init F act eps ini) q mu dtm = Inl (RuntimeError, [177])"
proof -
  have "Dense_forward (mu_channel_mix (PaiNNMixing_init F act eps ini)) mu = raise RuntimeError"
    using assms by (simp add: Dense_forward_def PaiNNMixing_init_def Dense_init_def)
  then show ?thesis by (simp add: PaiNNMixing_forward_def)
qed

lemma mixing_forward_scalar_update_raises:
  assumes "2 \<le> F" and "shape q = [n, 1, F]" and "shape mu = [n, 3, F]"
  shows "PaiNNMixing_forward (PaiNNMixing_init F act eps ini) q mu dtm = Inl (RuntimeError, [191])"
proof -
  let ?self = "PaiNNMixing_init F act eps ini"
  have F: "0 < F" using assms(1) by simp
  have cfg: "n_atom_basis_M ?self = F" by (simp add: PaiNNMixing_init_def)
  have "shape mu = [n, 3] @ [dense_in (mu_channel_mix ?self)]"
    using assms(3) by (simp add: PaiNNMixing_init_def Dense_init_def)
  from Dense_forward_ok [OF this]
  obtain mu_mix where mu_mix: "Dense_forward (mu_channel_mix ?self) mu = Inr mu_mix"
    and smix: "shape mu_mix = [n, 3] @ [2 * F]"
    by (auto simp: PaiNNMixing_init_def Dense_init_def)
  from split2_ok [OF smix F]
  obtain mu_V mu_W where sp: "ebind (torch_split mu_mix F) unpack2 = Inr (mu_V, mu_W)"
    and sV: "shape mu_V = [n, 3, F]" and sW: "shape mu_W = [n, 3, F]"
    by auto
  from torch_sum_middle [of "map_tensor (\<lambda>v. v\<^sup>2) mu_V" n 3 F "-2"] sV
  obtain sm where sm: "torch_sum (map_tensor (\<lambda>v. v\<^sup>2) mu_V) (-2) True = Inr sm"
    and ssm: "shape sm = [n, 1, F]"
    by auto
  define mu_Vn where "mu_Vn = map_tensor sqrt (map_tensor (\<lambda>v. v + epsilon ?self) sm)"
  have sVn: "shape mu_Vn = [n, 1] @ [F]" by (simp add: mu_Vn_def ssm)
  have sq: "shape q = [n, 1] @ [F]" using assms(2) by simp
  from torch_cat_ok [OF sq sVn]
  obtain ctx where ctx: "torch_cat q mu_Vn = Inr ctx" and sctx: "shape ctx = [n, 1] @ [2 * F]"
    by auto
  from intraatomic_context_net_ok [OF sctx, of act eps ini]
  obtain x where x: "intraatomic_context_net ?self ctx = Inr x" and sx: "shape x = [n, 1] @ [3 * F]"
    by auto
  from split3_ok [OF sx F]
  obtain dq_intra dmu_intra dqmu_intra where
    sp3: "ebind (torch_split x F) unpack3 = Inr (dq_intra, dmu_intra, dqmu_intra)"
    and sdq: "shape dq_intra = [n, 1] @ [F]" and sdmu: "shape dmu_intra = [n, 1, F]"
    and sdqmu: "shape dqmu_intra = [n, 1, F]"
    by auto
  from broadcast2_ok [of dmu_intra mu_W "[n, 3, F]" "(*)"] sdmu sW
  obtain dmu_intra' where dmu': "torch_mul dmu_intra mu_W = Inr dmu_intra'"
    by (auto simp: torch_mul_def broadcast_shapes_def bdim_def)
  from broadcast2_same_shape [of mu_V mu_W "(*)"] sV sW
  obtain p where p: "torch_mul mu_V mu_W = Inr p" and sp': "shape p = [n, 3, F]"
    by (auto simp: torch_mul_def)
  from torch_sum_middle [OF sp', of 1]
  obtain t where t: "torch_sum p 1 True = Inr t" and st: "shape t = [n, 1, F]"
    by auto
  from broadcast2_same_shape [of dqmu_intra t "(*)"] sdqmu st
  obtain dqmu_intra' where dqmu': "torch_mul dqmu_intra t = Inr dqmu_intra'"
    and sdqmu': "shape dqmu_intra' = [n, 1] @ [F]"
    by (auto simp: torch_mul_def)
  from torch_cat_ok [OF sdq sdqmu']
  obtain c where c: "torch_cat dq_intra dqmu_intra' = Inr c" and sc: "shape c = [n, 1] @ [F + F]"
    by auto
  have "F \<noteq> F + F" "F \<noteq> 1" "F + F \<noteq> 1" using assms(1) by simp_all
  from broadcast2_width_mismatch [OF sq sc this]
  have add: "torch_add q c = raise RuntimeError" by (simp add: torch_add_def)
  show ?thesis
    unfolding PaiNNMixing_forward_def
    using mu_mix sp sm ctx x sp3 dmu' p t dqmu' c add cfg
    by (simp add: mu_Vn_def [symmetric])
qed


text \<open>C3: a mixing round does not double the scalar width. With the documented vector
  width \<open>2F\<close> the first statement (line 177) raises, because \<^verbatim>\<open>mu_channel_mix\<close> is built
  for \<open>F\<close> input channels. With vector width \<open>F\<close>, for which lines 177 to 187 run, the
  sum on line 191 raises for every \<open>F \<ge> 2\<close>: \<open>q\<close> has width \<open>F\<close>, the concatenation has
  width \<open>2F\<close>, and the two do not broadcast.\<close>

theorem mixing_forward_cannot_double_width:
  "(0 < F \<and> shape mu = [n, 3, 2 * F] \<longrightarrow>
      PaiNNMixing_forward (PaiNNMixing_init F act eps ini) q mu dtm = Inl (RuntimeError, [177])) \<and>
   (2 \<le> F \<and> shape q = [n, 1, F] \<and> shape mu = [n, 3, F] \<longrightarrow>
      PaiNNMixing_forward (PaiNNMixing_init F act eps ini) q mu dtm = Inl (RuntimeError, [191]))"
proof (intro conjI impI; elim conjE)
  assume "0 < F" and "shape mu = [n, 3, 2 * F]"
  then show "PaiNNMixing_forward (PaiNNMixing_init F act eps ini) q mu dtm
      = Inl (RuntimeError, [177])"
    using mixing_forward_wrong_vector_width [of F mu "[n, 3]"] by simp
next
  assume "2 \<le> F" and "shape q = [n, 1, F]" and "shape mu = [n, 3, F]"
  then show "PaiNNMixing_forward (PaiNNMixing_init F act eps ini) q mu dtm
      = Inl (RuntimeError, [191])"
    by (rule mixing_forward_scalar_update_raises)
qed

theorem mixing_forward_cannot_double_width_witness:
  "PaiNNMixing_forward (PaiNNMixing_init 2 None (1 / 10 ^ 8) zero_init)
     (ones [1, 1, 2]) (ones [1, 3, 4]) (ones [1, 2, 3, 3]) = Inl (RuntimeError, [177]) \<and>
   PaiNNMixing_forward (PaiNNMixing_init 2 None (1 / 10 ^ 8) zero_init)
     (ones [1, 1, 2]) (ones [1, 3, 2]) (ones [1, 2, 3, 3]) = Inl (RuntimeError, [191])"
proof -
  have a: "PaiNNMixing_forward (PaiNNMixing_init 2 None (1 / 10 ^ 8) zero_init)
     (ones [1, 1, 2]) (ones [1, 3, 4]) (ones [1, 2, 3, 3]) = Inl (RuntimeError, [177])"
    using mixing_forward_cannot_double_width [of 2 "ones [1, 3, 4]" 1 None "1 / 10 ^ 8" zero_init
        "ones [1, 1, 2]" "ones [1, 2, 3, 3]"]
    by (simp add: ones_def)
  have b: "PaiNNMixing_forward (PaiNNMixing_init 2 None (1 / 10 ^ 8) zero_init)
     (ones [1, 1, 2]) (ones [1, 3, 2]) (ones [1, 2, 3, 3]) = Inl (RuntimeError, [191])"
    using mixing_forward_cannot_double_width [of 2 "ones [1, 3, 2]" 1 None "1 / 10 ^ 8" zero_init
        "ones [1, 1, 2]" "ones [1, 2, 3, 3]"]
    by (simp add: ones_def)
  from a b show ?thesis by blast
qed

text \<open>C6 as stated fails for an input with two batch axes: \<open>[2, 2, 2, 3]\<close> has the form
  \<open>[*, V, 3]\<close> for a layer with \<open>V = 2\<close> vector channels, the weights are computed and
  the newline is printed, and then \<^verbatim>\<open>einsum('bvc,bl->blc', ...)\<close> on line 34 raises, since
  its pattern names exactly three axes of the input.\<close>

theorem compression_forward_two_batch_axes_counterexample:
  "EquivariantCompressionLayer_forward (EquivariantCompressionLayer_init 2 1 zero_init)
     (ones [2, 2, 2, 3]) [] = (Inl (RuntimeError, [34]), [CHR 0x0A])"
proof -
  let ?self = "EquivariantCompressionLayer_init 2 1 zero_init"
  from torch_norm_last [of "ones [2, 2, 2, 3]"]
  obtain n where n: "torch_norm (ones [2, 2, 2, 3]) (-1) False = Inr n"
    and sn: "shape n = [2, 2] @ [2]"
    by (auto simp: ones_def)
  from fc_scalar_weights_ok [OF sn, of 1 zero_init]
  obtain w where w: "fc_scalar_weights ?self n = Inr w" by auto
  have "einsum_bvc_bl_blc (ones [2, 2, 2, 3]) w = raise RuntimeError"
    by (simp add: einsum_bvc_bl_blc_def ones_def)
  with n w show ?thesis
    by (simp add: EquivariantCompressionLayer_forward_def)
qed

lemma iobind_assoc: "iobind (iobind m f) g = iobind m (\<lambda>x. iobind (f x) g)"
  by (rule ext) (simp add: iobind_def split: prod.splits sum.splits)

lemma iobind_ioreturn: "iobind (ioreturn x) g = g x"
  by (rule ext) (simp add: iobind_def ioreturn_def)

lemma iobind_pure_ebind:
  "iobind (pure (ebind m f)) g = iobind (pure m) (\<lambda>x. iobind (pure (f x)) g)"
  by (rule ext) (cases m; simp add: iobind_def pure_def)

lemma iobind_pure_Inr: "iobind (pure (Inr x)) g = g x"
  by (rule ext) simp

lemma PaiNNInteraction_forward_parts:
  "PaiNNInteraction_forward self q mu Wij dir_ij ii ij n_atoms
     = iobind (interaction_aggregation self q mu Wij dir_ij ii ij n_atoms)
         (\<lambda>(dq_edges, dq, dmu_edges, dmu, mui). interaction_update self q dq dmu mui)"
  unfolding PaiNNInteraction_forward_def interaction_aggregation_def interaction_update_def
    interaction_scalar_aggregation_def
  by (simp add: iobind_assoc iobind_ioreturn iobind_pure_ebind iobind_pure_Inr case_prod_unfold)



lemma ebind_lineE:
  assumes "ebind (line n m) f = Inr r"
  obtains x where "m = Inr x" and "f x = Inr r"
  using assms by (cases m) (auto simp: line_def split: prod.splits)

lemma iobind_pureE:
  assumes "iobind (pure m) f out = (Inr r, out')"
  obtains x where "m = Inr x" and "f x out = (Inr r, out')"
  using assms by (cases m) (auto simp: iobind_def pure_def)

lemma iobind_called_atE:
  assumes "iobind (called_at n m) f out = (Inr r, out')"
  obtains x out1 where "m out = (Inr x, out1)" and "f x out1 = (Inr r, out')"
proof -
  obtain y out1 where m: "m out = (y, out1)" by (cases "m out")
  with assms that show thesis
    by (cases y) (auto simp: iobind_def called_at_def line_def split: prod.splits)
qed

lemma line_Inr: "line n r = Inr x \<Longrightarrow> r = Inr x"
  by (cases r) (auto simp: line_def)

lemma scalar_aggregation_Inr:
  assumes "interaction_scalar_aggregation self q mu Wij ii ij n
             = Inr (dq_edges, dq, dmuR, dmumu, muj, mui)"
  shows "scatter_add dq_edges ii n = Inr dq"
  using assms unfolding interaction_scalar_aggregation_def
  apply (elim ebind_lineE)
  apply (simp only: split_paired_all prod.case)
  apply (elim ebind_lineE)
  apply simp
  done

lemma aggregation_Inr:
  assumes "interaction_aggregation self q mu Wij dir_ij ii ij n out
             = (Inr (dq_edges, dq, dmu_edges, dmu, mui), out')"
  shows "(\<exists>dmuR dmumu muj. interaction_scalar_aggregation self q mu Wij ii ij n
             = Inr (dq_edges, dq, dmuR, dmumu, muj, mui))
         \<and> scatter_add dmu_edges ii n = Inr dmu"
  using assms unfolding interaction_aggregation_def
  apply (elim iobind_pureE)
  apply (simp only: split_paired_all prod.case)
  apply (elim iobind_called_atE iobind_pureE)
  apply (auto simp: ioreturn_def dest!: line_Inr)
  done

end
